theory Spec2Isabelle
  imports Main
begin

section \<open>The AfC statistics task (bot/tasks/afc\_statistics.py)\<close>

text \<open>
  The task mirrors the state of submission pages of a wiki in two SQL tables,
  \<open>page\<close> and \<open>row\<close>, and renders them into chart markup. The embedding follows
  the methods of class \<open>Task\<close> one by one. The SQL tables are lists of rows (in
  the order the store returns them), the wiki and its replica database are read-only
  values, and every Python exception that the source can raise by itself is a value
  of type \<open>error\<close>.
\<close>

subsection \<open>Exceptions\<close>

datatype error =
    IndexError          \<comment> \<open>\<open>list(result)[0]\<close> on an empty result, \<open>result[11]\<close>\<close>
  | NameError           \<comment> \<open>a name that was never bound (\<open>query2\<close> in \<open>get_create\<close>)\<close>
  | AttributeError      \<comment> \<open>\<open>None.strftime\<close>\<close>
  | ValueError          \<comment> \<open>\<open>datetime.strptime\<close> on a malformed timestamp\<close>
  | ProgrammingError    \<comment> \<open>a statement the SQL server rejects\<close>
  | IntegrityError      \<comment> \<open>a duplicate primary key on insert\<close>
  | TypeError           \<comment> \<open>a value the SQL driver cannot bind as a parameter\<close>

subsection \<open>The wiki and its replica database\<close>

text \<open>Timestamps (\<open>datetime\<close> objects, SQL \<open>DATETIME\<close> values) are seconds on a
  linear time axis.\<close>

type_synonym datetime = int

text \<open>A page object as the wiki client hands it out: the results of \<open>page.get()\<close>,
  \<open>page.is_redirect()\<close>, \<open>page.get_redirect_target()\<close>, \<open>page.namespace()\<close>,
  \<open>page.pageid()\<close> and \<open>page.title()\<close>.\<close>

record wiki_page =
  wp_get :: string
  wp_is_redirect :: bool
  wp_get_redirect_target :: string
  wp_namespace :: int
  wp_pageid :: int
  wp_title :: string

text \<open>The replica's tables \<open>page\<close> and \<open>revision\<close>, restricted to the columns the
  task reads through \<open>site.sql_query\<close>.\<close>

record replica_page =
  rp_page_id :: int
  rp_page_title :: string
  rp_page_latest :: int

record revision =
  rev_id :: int
  rev_user_text :: string
  rev_timestamp :: string

record site =
  get_page :: "string \<Rightarrow> wiki_page"
  replica_pages :: "replica_page list"
  replica_revisions :: "revision list"
  category_members :: "string list"

subsection \<open>The status classifier\<close>

text \<open>
  \<open>re.search("\{\{afc submission\|X\|(.*?)\}\}", content, re.I)\<close>: the literal
  \<open>{{afc submission|X|\<close> compared without regard to the case of ASCII letters, then any
  characters but a newline (the flag \<open>re.DOTALL\<close> is not given), then \<open>}}\<close>.
\<close>

definition ascii_lower :: "char \<Rightarrow> char" where
  "ascii_lower c =
     (let n = (of_char c :: nat) in if 65 \<le> n \<and> n \<le> 90 then char_of (n + 32) else c)"

fun match_literal :: "string \<Rightarrow> string \<Rightarrow> string option" where
  "match_literal [] s = Some s"
| "match_literal (p # ps) [] = None"
| "match_literal (p # ps) (c # cs) =
     (if ascii_lower p = ascii_lower c then match_literal ps cs else None)"

fun match_lazy_close :: "string \<Rightarrow> bool" where
  "match_lazy_close [] = False"
| "match_lazy_close (c # cs) =
     (if c = CHR ''}'' \<and> (case cs of [] \<Rightarrow> False | d # _ \<Rightarrow> d = CHR ''}'') then True
      else if c = CHR 0x0A then False
      else match_lazy_close cs)"

definition match_here :: "string \<Rightarrow> string \<Rightarrow> bool" where
  "match_here lit s =
     (case match_literal lit s of None \<Rightarrow> False | Some rest \<Rightarrow> match_lazy_close rest)"

fun re_search :: "string \<Rightarrow> string \<Rightarrow> bool" where
  "re_search lit [] = match_here lit []"
| "re_search lit (c # cs) = (match_here lit (c # cs) \<or> re_search lit cs)"

definition afc_marker :: "char list \<Rightarrow> string \<Rightarrow> bool" where
  "afc_marker x content = re_search (''{{afc submission|'' @ x @ ''|'') content"

definition get_status_and_chart :: "site \<Rightarrow> wiki_page \<Rightarrow> string option \<times> int" where
  "get_status_and_chart st page =
     (let content = wp_get page in
      if wp_is_redirect page then
        (let target = wp_get_redirect_target page in
         if wp_namespace (get_page st target) = 0 then (Some ''accept'', 4)
         else (None, 0))
      else if afc_marker ''r'' content then (Some ''review'', 3)
      else if afc_marker ''h'' content then (Some ''pend'', 2)
      else if afc_marker '''' content then (Some ''pend'', 1)
      else if afc_marker ''t'' content then (None, 0)
      else if afc_marker ''d'' content then (Some ''decline'', 5)
      else (None, 0))"

subsection \<open>The page record store\<close>

text \<open>The fifteen columns of table \<open>page\<close>, in the order of the \<open>INSERT\<close> of
  \<open>track_page\<close>, and the two columns of table \<open>row\<close>. Columns that the task itself
  writes \<open>None\<close> into are nullable.\<close>

record page_row =
  page_id :: int
  page_status :: "string option"
  page_title :: string
  page_short :: string
  page_size :: int
  page_notes :: "string option"
  page_create_user :: string
  page_create_time :: datetime
  page_create_oldid :: int
  page_modify_user :: string
  page_modify_time :: datetime
  page_modify_oldid :: int
  page_special_user :: "string option"
  page_special_time :: "datetime option"
  page_special_oldid :: "int option"

record chart_row =
  row_id :: int
  row_chart :: int

text \<open>A row of the static catalog \<open>chart\<close>: \<open>chart_id, chart_title, special_title\<close>.\<close>

type_synonym chart_info = "int \<times> string \<times> string option"

record store =
  page_tbl :: "page_row list"
  row_tbl :: "chart_row list"
  chart_tbl :: "chart_info list"

text \<open>\<open>self\<close>: the configured templates and ignore list, the site, and the two
  functions of Python's \<open>datetime\<close> the task calls (\<open>strptime\<close> gives \<open>None\<close> where
  Python raises \<open>ValueError\<close>).\<close>

record task =
  tl_header :: string
  tl_row :: string
  tl_footer :: string
  ignore_list :: "string list"
  the_site :: site
  strftime :: "datetime \<Rightarrow> string \<Rightarrow> string"
  strptime :: "string \<Rightarrow> string \<Rightarrow> datetime option"

text \<open>Python's truth test on an optional string.\<close>

fun truthy :: "string option \<Rightarrow> bool" where
  "truthy None = False"
| "truthy (Some s) = (s \<noteq> [])"

text \<open>\<open>SELECT * FROM page JOIN row ON page_id = row_id\<close>.\<close>

definition page_join_row :: "store \<Rightarrow> (page_row \<times> chart_row) list" where
  "page_join_row s =
     concat (map (\<lambda>p. map (\<lambda>r. (p, r)) (filter (\<lambda>r. page_id p = row_id r) (row_tbl s)))
       (page_tbl s))"

subsection \<open>The chart compiler\<close>

definition digit_char :: "nat \<Rightarrow> char" where
  "digit_char d = char_of (48 + d)"

fun str_nat :: "nat \<Rightarrow> string" where
  "str_nat n = (if n < 10 then [digit_char n] else str_nat (n div 10) @ [digit_char (n mod 10)])"

definition str_int :: "int \<Rightarrow> string" where
  "str_int i = (if i < 0 then CHR ''-'' # str_nat (nat (- i)) else str_nat (nat i))"

text \<open>What \<open>str.format\<close> prints for a nullable column.\<close>

definition fmt_str :: "string option \<Rightarrow> string" where
  "fmt_str v = (case v of None \<Rightarrow> ''None'' | Some s \<Rightarrow> s)"

definition fmt_int :: "int option \<Rightarrow> string" where
  "fmt_int v = (case v of None \<Rightarrow> ''None'' | Some i \<Rightarrow> str_int i)"

definition format_time :: "task \<Rightarrow> datetime \<Rightarrow> string" where
  "format_time self timestamp = strftime self timestamp ''%H:%M, %d %B %Y''"

text \<open>\<open>compile_chart_row\<close>: the template is built piece by piece and then filled in
  by \<open>row.format(self.tl_row, **page)\<close>; the model writes the filled-in pieces.
  \<open>format_time\<close> of a \<open>None\<close> special time raises \<open>AttributeError\<close>.\<close>

definition compile_chart_row :: "task \<Rightarrow> page_row \<Rightarrow> error + string" where
  "compile_chart_row self page =
     (let row = tl_row self @ ''|s='' @ fmt_str (page_status page)
            @ ''|t='' @ page_title page @ ''|h='' @ page_short page
            @ ''|z='' @ str_int (page_size page) @ ''|''
            @ ''cr='' @ page_create_user page
            @ ''|cd='' @ format_time self (page_create_time page)
            @ ''|ci='' @ str_int (page_create_oldid page) @ ''|''
            @ ''mr='' @ page_modify_user page
            @ ''|md='' @ format_time self (page_modify_time page)
            @ ''|mi='' @ str_int (page_modify_oldid page) @ ''|'';
          notes = (if truthy (page_notes page) then ''n=1'' @ fmt_str (page_notes page) else [])
      in if truthy (page_special_user page) then
           (case page_special_time page of
              None \<Rightarrow> Inl AttributeError
            | Some t \<Rightarrow>
                Inr (''{{'' @ row @ ''sr='' @ fmt_str (page_special_user page)
                     @ ''|sd='' @ format_time self t
                     @ ''|si='' @ fmt_int (page_special_oldid page) @ ''|'' @ notes @ ''}}''))
         else Inr (''{{'' @ row @ notes @ ''}}''))"

text \<open>The loop \<open>for page in cursor: chart += "\n" + self.compile_chart_row(page)\<close>.\<close>

fun compile_chart_rows :: "task \<Rightarrow> page_row list \<Rightarrow> string \<Rightarrow> error + string" where
  "compile_chart_rows self [] chart = Inr chart"
| "compile_chart_rows self (page # pages) chart =
     (case compile_chart_row self page of
        Inl e \<Rightarrow> Inl e
      | Inr r \<Rightarrow> compile_chart_rows self pages (chart @ [CHR 0x0A] @ r))"

definition compile_chart :: "task \<Rightarrow> store \<Rightarrow> chart_info \<Rightarrow> error + string" where
  "compile_chart self s chart_info =
     (case chart_info of (chart_id, chart_title, special_title) \<Rightarrow>
        let chart = tl_header self @ ''|'' @ chart_title;
            chart = (if truthy special_title then chart @ ''|'' @ fmt_str special_title
                     else chart);
            chart = ''{{'' @ chart @ ''}}'';
            pages = map fst (filter (\<lambda>(p, r). row_chart r = chart_id) (page_join_row s))
        in case compile_chart_rows self pages chart of
             Inl e \<Rightarrow> Inl e
           | Inr chart \<Rightarrow> Inr (chart @ [CHR 0x0A] @ ''{{'' @ tl_footer self @ ''}}''))"

text \<open>The loop \<open>for chart in cursor: stats += self.compile_chart(chart) + "\n"\<close>.\<close>

fun compile_charts_loop :: "task \<Rightarrow> store \<Rightarrow> chart_info list \<Rightarrow> string \<Rightarrow> error + string" where
  "compile_charts_loop self s [] stats = Inr stats"
| "compile_charts_loop self s (chart # charts) stats =
     (case compile_chart self s chart of
        Inl e \<Rightarrow> Inl e
      | Inr c \<Rightarrow> compile_charts_loop self s charts (stats @ c @ [CHR 0x0A]))"

definition compile_charts :: "task \<Rightarrow> store \<Rightarrow> error + string" where
  "compile_charts self s =
     (case compile_charts_loop self s (chart_tbl s) [] of
        Inl e \<Rightarrow> Inl e
      | Inr stats \<Rightarrow> Inr (butlast stats))"

subsection \<open>Revision lookup\<close>

text \<open>\<open>get_create\<close> binds \<open>query1\<close> twice and \<open>query2\<close> never. The first query it
  sends is therefore \<open>SELECT ... FROM revision WHERE rev_id = ?\<close> with the page id;
  \<open>list(result1)[0][0]\<close> raises \<open>IndexError\<close> on an empty result, and otherwise
  evaluating the unbound name \<open>query2\<close> raises \<open>NameError\<close>.\<close>

definition get_create :: "task \<Rightarrow> int \<Rightarrow> error + (string \<times> datetime \<times> int)" where
  "get_create self pageid =
     (let result1 = filter (\<lambda>r. rev_id r = pageid) (replica_revisions (the_site self))
      in case result1 of [] \<Rightarrow> Inl IndexError | r # _ \<Rightarrow> Inl NameError)"

text \<open>\<open>SELECT rev_user_text, rev_timestamp, rev_id FROM revision JOIN page
  ON rev_id = page_latest WHERE page_id = ?\<close>, then \<open>list(result)[0]\<close>.\<close>

definition get_modify :: "task \<Rightarrow> int \<Rightarrow> error + (string \<times> datetime \<times> int)" where
  "get_modify self pageid =
     (let result = concat (map (\<lambda>r. map (\<lambda>p. r)
                      (filter (\<lambda>p. rev_id r = rp_page_latest p \<and> rp_page_id p = pageid)
                         (replica_pages (the_site self))))
                    (replica_revisions (the_site self)))
      in case result of
           [] \<Rightarrow> Inl IndexError
         | r # _ \<Rightarrow>
             (case strptime self (rev_timestamp r) ''%Y%m%d%H%M%S'' of
                None \<Rightarrow> Inl ValueError
              | Some m_time \<Rightarrow> Inr (rev_user_text r, m_time, rev_id r)))"

definition get_special :: "wiki_page \<Rightarrow> string option \<Rightarrow> string option \<times> datetime option \<times> int option" where
  "get_special page status = (None, None, None)"

definition get_notes :: "wiki_page \<Rightarrow> string option" where
  "get_notes page = None"

subsection \<open>The short title\<close>

text \<open>\<open>re.sub("Wikipedia(\s*talk)?\:Articles\sfor\screation\/", "", title)\<close>: every
  match, from left to right, is removed. The optional group cannot be skipped once it
  has matched (what follows it must start with a colon), so matching is deterministic.\<close>

definition is_space :: "char \<Rightarrow> bool" where
  "is_space c = (c \<in> set [CHR '' '', CHR 0x09, CHR 0x0A, CHR 0x0B, CHR 0x0C, CHR 0x0D])"

fun strip_literal :: "string \<Rightarrow> string \<Rightarrow> string option" where
  "strip_literal [] s = Some s"
| "strip_literal (p # ps) [] = None"
| "strip_literal (p # ps) (c # cs) = (if p = c then strip_literal ps cs else None)"

fun strip_space :: "string \<Rightarrow> string option" where
  "strip_space [] = None"
| "strip_space (c # cs) = (if is_space c then Some cs else None)"

definition match_afc_prefix :: "string \<Rightarrow> string option" where
  "match_afc_prefix s =
     (case strip_literal ''Wikipedia'' s of None \<Rightarrow> None | Some r1 \<Rightarrow>
      let r2 = (case strip_literal ''talk'' (dropWhile is_space r1) of
                  Some r \<Rightarrow> r | None \<Rightarrow> r1)
      in case strip_literal '':Articles'' r2 of None \<Rightarrow> None | Some r3 \<Rightarrow>
         case strip_space r3 of None \<Rightarrow> None | Some r4 \<Rightarrow>
         case strip_literal ''for'' r4 of None \<Rightarrow> None | Some r5 \<Rightarrow>
         case strip_space r5 of None \<Rightarrow> None | Some r6 \<Rightarrow>
         strip_literal ''creation/'' r6)"

text \<open>The first argument counts the characters of a match still to be dropped.\<close>

fun re_sub_prefix :: "nat \<Rightarrow> string \<Rightarrow> string" where
  "re_sub_prefix k [] = []"
| "re_sub_prefix (Suc k) (c # cs) = re_sub_prefix k cs"
| "re_sub_prefix 0 (c # cs) =
     (case match_afc_prefix (c # cs) of
        None \<Rightarrow> c # re_sub_prefix 0 cs
      | Some rest \<Rightarrow> re_sub_prefix (length cs - length rest) cs)"

definition get_short_title :: "string \<Rightarrow> string" where
  "get_short_title title = re_sub_prefix 0 title"

subsection \<open>Statements on the store\<close>

text \<open>A value handed to \<open>cursor.execute\<close> as a statement parameter, and Python's truth
  test on it.\<close>

datatype sql_param = PInt int | PStr string | PRow "int list"

fun param_truthy :: "sql_param option \<Rightarrow> bool" where
  "param_truthy None = False"
| "param_truthy (Some (PInt n)) = (n \<noteq> 0)"
| "param_truthy (Some (PStr s)) = (s \<noteq> [])"
| "param_truthy (Some (PRow r)) = (r \<noteq> [])"

text \<open>
  \<open>DELETE FROM page JOIN row ON page_id = row_id WHERE ? = ?\<close>, the one statement of
  \<open>untrack_page\<close>. MySQL's grammar has a join in a \<open>DELETE\<close> only in the multi-table
  forms \<open>DELETE t1, t2 FROM ...\<close> and \<open>DELETE FROM t1, t2 USING ...\<close> (the form
  \<open>sync_old\<close> uses); after \<open>DELETE FROM page\<close> the word \<open>JOIN\<close> is a syntax error, and
  the driver raises \<open>ProgrammingError\<close> when it prepares the statement. (Were the
  statement accepted, both placeholders would still be bound as values, so the
  condition would compare the string \<open>'page_id'\<close> or \<open>'page_title'\<close> with the
  parameter and not a column with it.)
\<close>

definition execute_untrack_query :: "store \<Rightarrow> string \<Rightarrow> sql_param \<Rightarrow> error + store" where
  "execute_untrack_query s column v = Inl ProgrammingError"

definition untrack_page :: "store \<Rightarrow> sql_param option \<Rightarrow> sql_param option \<Rightarrow> error + store" where
  "untrack_page s pageid title =
     (if param_truthy pageid then execute_untrack_query s ''page_id'' (the pageid)
      else if param_truthy title then execute_untrack_query s ''page_title'' (the title)
      else Inr s)"

text \<open>Modelled from the spec: the schema of the two tables is not part of the
  sources; \<open>page_id\<close> and \<open>row_id\<close> are primary keys, so an \<open>INSERT\<close> of a key that is
  present fails.\<close>

definition execute_insert_row :: "store \<Rightarrow> chart_row \<Rightarrow> error + store" where
  "execute_insert_row s r =
     (if row_id r \<in> set (map row_id (row_tbl s)) then Inl IntegrityError
      else Inr (s\<lparr>row_tbl := row_tbl s @ [r]\<rparr>))"

definition execute_insert_page :: "store \<Rightarrow> page_row \<Rightarrow> error + store" where
  "execute_insert_page s p =
     (if page_id p \<in> set (map page_id (page_tbl s)) then Inl IntegrityError
      else Inr (s\<lparr>page_tbl := page_tbl s @ [p]\<rparr>))"

text \<open>\<open>UPDATE page SET page_title = ?, page_short = ? WHERE page_id = ?\<close>\<close>

definition update_title :: "string \<Rightarrow> string \<Rightarrow> int \<Rightarrow> store \<Rightarrow> store" where
  "update_title title short pageid s =
     s\<lparr>page_tbl := map (\<lambda>p. if page_id p = pageid
                             then p\<lparr>page_title := title, page_short := short\<rparr> else p)
                     (page_tbl s)\<rparr>"

text \<open>\<open>UPDATE page SET page_size = ?, page_modify_user = ?, page_modify_time = ?,
  page_modify_oldid = ? WHERE page_id = ?\<close>\<close>

definition update_modify :: "int \<Rightarrow> string \<Rightarrow> datetime \<Rightarrow> int \<Rightarrow> int \<Rightarrow> store \<Rightarrow> store" where
  "update_modify sz m_user m_time m_id pageid s =
     s\<lparr>page_tbl := map (\<lambda>p. if page_id p = pageid
                             then p\<lparr>page_size := sz, page_modify_user := m_user,
                                    page_modify_time := m_time, page_modify_oldid := m_id\<rparr>
                             else p)
                     (page_tbl s)\<rparr>"

text \<open>\<open>UPDATE page JOIN row ON page_id = row_id SET page_status = ?, row_chart = ?
  WHERE page_id = ?\<close>: the rows of either table that take part in the join.\<close>

definition update_status :: "string option \<Rightarrow> int \<Rightarrow> int \<Rightarrow> store \<Rightarrow> store" where
  "update_status status chart pageid s =
     s\<lparr>page_tbl := map (\<lambda>p. if page_id p = pageid \<and> page_id p \<in> set (map row_id (row_tbl s))
                             then p\<lparr>page_status := status\<rparr> else p)
                     (page_tbl s),
       row_tbl := map (\<lambda>r. if row_id r = pageid \<and> row_id r \<in> set (map page_id (page_tbl s))
                            then r\<lparr>row_chart := chart\<rparr> else r)
                    (row_tbl s)\<rparr>"

text \<open>\<open>UPDATE page SET page_special_user = ?, page_special_time = ?,
  page_special_oldid = ? WHERE page_id = ?\<close>\<close>

definition update_special ::
  "string option \<Rightarrow> datetime option \<Rightarrow> int option \<Rightarrow> int \<Rightarrow> store \<Rightarrow> store" where
  "update_special s_user s_time s_id pageid s =
     s\<lparr>page_tbl := map (\<lambda>p. if page_id p = pageid
                             then p\<lparr>page_special_user := s_user, page_special_time := s_time,
                                    page_special_oldid := s_id\<rparr>
                             else p)
                     (page_tbl s)\<rparr>"

text \<open>\<open>UPDATE page SET page_notes = ? WHERE page_id = ?\<close>\<close>

definition update_notes :: "string option \<Rightarrow> int \<Rightarrow> store \<Rightarrow> store" where
  "update_notes notes pageid s =
     s\<lparr>page_tbl := map (\<lambda>p. if page_id p = pageid then p\<lparr>page_notes := notes\<rparr> else p)
                     (page_tbl s)\<rparr>"

text \<open>\<open>UPDATE page SET page_title = ?, page_modify_oldid = ? WHERE page_title = ?\<close>\<close>

definition update_move :: "string \<Rightarrow> int \<Rightarrow> string \<Rightarrow> store \<Rightarrow> store" where
  "update_move dest new_oldid source s =
     s\<lparr>page_tbl := map (\<lambda>p. if page_title p = source
                             then p\<lparr>page_title := dest, page_modify_oldid := new_oldid\<rparr>
                             else p)
                     (page_tbl s)\<rparr>"

subsection \<open>The sync engine\<close>

text \<open>A raised exception ends the method; the model returns it as \<open>Inl\<close> and does not
  say what the store holds then.\<close>

definition track_page :: "task \<Rightarrow> store \<Rightarrow> string \<Rightarrow> error + store" where
  "track_page self s title =
     (let page = get_page (the_site self) title;
          (status, chart) = get_status_and_chart (the_site self) page
      in if \<not> truthy status \<or> status \<in> {Some ''accept'', Some ''decline''} then Inr s
         else
           let pageid = wp_pageid page;
               title = wp_title page;
               short = get_short_title title;
               sz = int (length (wp_get page));
               notes = get_notes page
           in case get_create self pageid of Inl e \<Rightarrow> Inl e | Inr (c_user, c_time, c_id) \<Rightarrow>
              case get_modify self pageid of Inl e \<Rightarrow> Inl e | Inr (m_user, m_time, m_id) \<Rightarrow>
              case get_special page status of (s_user, s_time, s_id) \<Rightarrow>
              case execute_insert_row s \<lparr>row_id = pageid, row_chart = chart\<rparr> of
                Inl e \<Rightarrow> Inl e
              | Inr s1 \<Rightarrow>
                  execute_insert_page s1
                    \<lparr>page_id = pageid, page_status = status, page_title = title,
                     page_short = short, page_size = sz, page_notes = notes,
                     page_create_user = c_user, page_create_time = c_time,
                     page_create_oldid = c_id, page_modify_user = m_user,
                     page_modify_time = m_time, page_modify_oldid = m_id,
                     page_special_user = s_user, page_special_time = s_time,
                     page_special_oldid = s_id\<rparr>)"

text \<open>The groups of columns that \<open>update_page\<close> writes with one \<open>UPDATE\<close> each.\<close>

datatype field_group = Title_short | Size_modify | Status_chart | Special_triple | Notes

text \<open>\<open>SELECT * FROM page JOIN row ON page_id = row_id WHERE page_id = ?\<close>\<close>

definition select_joined :: "store \<Rightarrow> int \<Rightarrow> (page_row \<times> chart_row) list" where
  "select_joined s pageid = filter (\<lambda>(p, r). page_id p = pageid) (page_join_row s)"

text \<open>The four comparisons of \<open>update_page\<close> with the stored row \<open>result\<close>, each with
  the statement it issues; each returns the store and the field groups written.\<close>

definition diff_title :: "string \<Rightarrow> int \<Rightarrow> page_row \<Rightarrow> store \<Rightarrow> store \<times> field_group list" where
  "diff_title title pageid result s =
     (if title \<noteq> page_title result
      then (update_title title (get_short_title title) pageid s, [Title_short])
      else (s, []))"

definition diff_modify ::
  "int \<Rightarrow> string \<Rightarrow> datetime \<Rightarrow> int \<Rightarrow> int \<Rightarrow> page_row \<Rightarrow> store \<Rightarrow> store \<times> field_group list" where
  "diff_modify sz m_user m_time m_id pageid result s =
     (if m_id \<noteq> page_modify_oldid result
      then (update_modify sz m_user m_time m_id pageid s, [Size_modify])
      else (s, []))"

definition diff_status ::
  "wiki_page \<Rightarrow> string option \<Rightarrow> int \<Rightarrow> int \<Rightarrow> page_row \<Rightarrow> store \<Rightarrow> store \<times> field_group list" where
  "diff_status page status chart pageid result s =
     (if status \<noteq> page_status result
      then (let s' = update_status status chart pageid s in
            case get_special page status of (s_user, s_time, s_id) \<Rightarrow>
              if s_id \<noteq> page_special_oldid result
              then (update_special s_user s_time s_id pageid s', [Status_chart, Special_triple])
              else (s', [Status_chart]))
      else (s, []))"

definition diff_notes :: "string option \<Rightarrow> int \<Rightarrow> page_row \<Rightarrow> store \<Rightarrow> store \<times> field_group list" where
  "diff_notes notes pageid result s =
     (if notes \<noteq> page_notes result
      then (update_notes notes pageid s, [Notes])
      else (s, []))"

text \<open>\<open>update_page\<close> returns the store and the field groups it has written. After
  \<open>untrack_page\<close> the method goes on: there is no \<open>return\<close> in that branch.\<close>

definition update_page :: "task \<Rightarrow> store \<Rightarrow> string \<Rightarrow> error + (store \<times> field_group list)" where
  "update_page self s title =
     (let page = get_page (the_site self) title;
          (status, chart) = get_status_and_chart (the_site self) page
      in case (if \<not> truthy status then untrack_page s None (Some (PStr title)) else Inr s) of
           Inl e \<Rightarrow> Inl e
         | Inr s0 \<Rightarrow>
      let pageid = wp_pageid page;
          title = wp_title page;
          sz = int (length (wp_get page));
          notes = get_notes page
      in case get_modify self pageid of Inl e \<Rightarrow> Inl e | Inr (m_user, m_time, m_id) \<Rightarrow>
         case select_joined s0 pageid of [] \<Rightarrow> Inl IndexError | (result, result_row) # _ \<Rightarrow>
         let (s1, w1) = diff_title title pageid result s0;
             (s2, w2) = diff_modify sz m_user m_time m_id pageid result s1;
             (s3, w3) = diff_status page status chart pageid result s2;
             (s4, w4) = diff_notes notes pageid result s3
         in Inr (s4, w1 @ w2 @ w3 @ w4))"

definition sync_page :: "task \<Rightarrow> store \<Rightarrow> string \<Rightarrow> error + store" where
  "sync_page self s page =
     (let result = filter (\<lambda>p. page_title p = page) (page_tbl s)
      in if result \<noteq> [] then
           (case update_page self s page of Inl e \<Rightarrow> Inl e | Inr (s', w) \<Rightarrow> Inr s')
         else track_page self s page)"

definition process_edit :: "task \<Rightarrow> store \<Rightarrow> string \<Rightarrow> error + store" where
  "process_edit self s page =
     (if page \<in> set (ignore_list self) then Inr s else sync_page self s page)"

text \<open>In \<open>process_move\<close>, \<open>result\<close> is the list of rows \<open>cursor.fetchall()\<close> returns, so
  the fallback \<open>result[11]\<close> takes the twelfth row, not column 11 of the first one: with
  fewer than twelve rows it raises \<open>IndexError\<close> inside the handler, and with twelve or
  more a whole row is bound as \<open>page_modify_oldid\<close>, which the driver refuses.\<close>

definition process_move :: "task \<Rightarrow> store \<Rightarrow> string \<times> string \<Rightarrow> error + store" where
  "process_move self s page =
     (case page of (source, dest) \<Rightarrow>
      let result = filter (\<lambda>p. page_title p = source) (page_tbl s)
      in if result = [] then track_page self s dest
         else
           (case filter (\<lambda>p. rp_page_title p = dest) (replica_pages (the_site self)) of
              r # _ \<Rightarrow> Inr (update_move dest (rp_page_latest r) source s)
            | [] \<Rightarrow> (if 11 < length result then Inl TypeError else Inl IndexError)))"

text \<open>In \<open>process_delete\<close> and \<open>sync_deleted\<close>, \<open>list(result)[0]\<close> is a row of one
  column: \<open>IndexError\<close> on an empty result, and a non-empty tuple, which is true,
  otherwise. String comparison in a \<open>WHERE\<close> clause is equality of the strings.\<close>

definition process_delete :: "task \<Rightarrow> store \<Rightarrow> string \<Rightarrow> error + store" where
  "process_delete self s page =
     (case filter (\<lambda>p. rp_page_title p = page) (replica_pages (the_site self)) of
        [] \<Rightarrow> Inl IndexError
      | r # _ \<Rightarrow>
          if param_truthy (Some (PRow [rp_page_id r])) then sync_page self s page
          else untrack_page s None (Some (PStr page)))"

text \<open>A parameter of a statement is a number or a string; a row, which is a tuple, is
  refused by the driver with \<open>TypeError\<close> before the statement runs.\<close>

definition bind_param :: "sql_param \<Rightarrow> error + sql_param" where
  "bind_param v = (case v of PRow row \<Rightarrow> Inl TypeError | _ \<Rightarrow> Inr v)"

text \<open>\<open>sync_deleted\<close> iterates over the rows of \<open>SELECT page_id FROM page\<close> and hands each
  row \<open>page\<close>, a tuple of one column, to the replica query as its parameter, and to
  \<open>untrack_page\<close> as the page id. The list is the result set of the first \<open>SELECT\<close>, with
  each row given by its one column.\<close>

fun sync_deleted_loop :: "task \<Rightarrow> int list \<Rightarrow> store \<Rightarrow> error + store" where
  "sync_deleted_loop self [] s = Inr s"
| "sync_deleted_loop self (page # pages) s =
     (case bind_param (PRow [page]) of
        Inl e \<Rightarrow> Inl e
      | Inr v \<Rightarrow>
          (case filter (\<lambda>p. PInt (rp_page_id p) = v) (replica_pages (the_site self)) of
             [] \<Rightarrow> Inl IndexError
           | r # _ \<Rightarrow>
               if \<not> param_truthy (Some (PRow [rp_page_id r])) then
                 (case untrack_page s (Some (PRow [page])) None of
                    Inl e \<Rightarrow> Inl e
                  | Inr s' \<Rightarrow> sync_deleted_loop self pages s')
               else sync_deleted_loop self pages s))"

definition sync_deleted :: "task \<Rightarrow> store \<Rightarrow> error + store" where
  "sync_deleted self s = sync_deleted_loop self (map page_id (page_tbl s)) s"

text \<open>\<open>sync_oldids\<close> iterates over \<open>cursor\<close> itself, and the body hands the same cursor to
  \<open>update_page\<close> and \<open>untrack_page\<close>. A statement executed on a cursor replaces its result
  set, so once the body has executed one, the iteration finds no further row and the loop
  ends. \<open>update_page\<close> has executed a statement on \<open>cursor\<close> exactly when it has written a
  field group (its \<open>SELECT\<close> runs on a cursor of its own), and an \<open>untrack_page\<close> that
  returns has executed none. The list is what is left of the result set of the first
  \<open>SELECT\<close>.\<close>

fun sync_oldids_loop :: "task \<Rightarrow> (int \<times> string \<times> int) list \<Rightarrow> store \<Rightarrow> error + store" where
  "sync_oldids_loop self [] s = Inr s"
| "sync_oldids_loop self ((pid, title, oldid) # rest) s =
     (case filter (\<lambda>p. rp_page_id p = pid) (replica_pages (the_site self)) of
        [] \<Rightarrow>
          (case untrack_page s (Some (PInt pid)) None of
             Inl e \<Rightarrow> Inl e
           | Inr s' \<Rightarrow> sync_oldids_loop self rest s')
      | r # _ \<Rightarrow>
          let real_oldid = rp_page_latest r
          in if real_oldid \<noteq> oldid then
               (case update_page self s title of
                  Inl e \<Rightarrow> Inl e
                | Inr (s', w) \<Rightarrow>
                    if w \<noteq> [] then Inr s' else sync_oldids_loop self rest s')
             else sync_oldids_loop self rest s)"

definition sync_oldids :: "task \<Rightarrow> store \<Rightarrow> error + store" where
  "sync_oldids self s =
     sync_oldids_loop self
       (map (\<lambda>p. (page_id p, page_title p, page_modify_oldid p)) (page_tbl s)) s"

fun sync_pending_loop :: "task \<Rightarrow> string list \<Rightarrow> string list \<Rightarrow> store \<Rightarrow> error + store" where
  "sync_pending_loop self tracked [] s = Inr s"
| "sync_pending_loop self tracked (page # pages) s =
     (if page \<in> set (ignore_list self) then sync_pending_loop self tracked pages s
      else if page \<notin> set tracked then
        (case track_page self s page of
           Inl e \<Rightarrow> Inl e
         | Inr s' \<Rightarrow> sync_pending_loop self tracked pages s')
      else sync_pending_loop self tracked pages s)"

definition sync_pending :: "task \<Rightarrow> store \<Rightarrow> error + store" where
  "sync_pending self s =
     (let tracked = map (\<lambda>(p, r). page_title p)
                      (filter (\<lambda>(p, r). row_chart r \<in> {1, 2, 3}) (page_join_row s))
      in sync_pending_loop self tracked (category_members (the_site self)) s)"

text \<open>\<open>DELETE FROM page, row USING page JOIN row ON page_id = row_id
  WHERE row_chart IN (4, 5) AND ADDTIME(page_special_time, '36:00:00') < NOW()\<close>:
  every row of either table that takes part in a joined row the condition holds for.
  The condition is not true of a \<open>NULL\<close> special time.\<close>

definition old_enough :: "datetime \<Rightarrow> page_row \<Rightarrow> chart_row \<Rightarrow> bool" where
  "old_enough now p r =
     (page_id p = row_id r \<and> row_chart r \<in> {4, 5} \<and>
      (case page_special_time p of None \<Rightarrow> False | Some t \<Rightarrow> t + 36 * 3600 < now))"

definition sync_old :: "datetime \<Rightarrow> store \<Rightarrow> store" where
  "sync_old now s =
     s\<lparr>page_tbl := filter (\<lambda>p. \<not> list_ex (old_enough now p) (row_tbl s)) (page_tbl s),
       row_tbl := filter (\<lambda>r. \<not> list_ex (\<lambda>p. old_enough now p r) (page_tbl s)) (row_tbl s)\<rparr>"

text \<open>\<open>sync\<close>: the four passes in order; \<open>now\<close> is the server's \<open>NOW()\<close>.\<close>

definition sync :: "task \<Rightarrow> datetime \<Rightarrow> store \<Rightarrow> error + store" where
  "sync self now s =
     (case sync_deleted self s of Inl e \<Rightarrow> Inl e | Inr s1 \<Rightarrow>
      case sync_oldids self s1 of Inl e \<Rightarrow> Inl e | Inr s2 \<Rightarrow>
      case sync_pending self s2 of Inl e \<Rightarrow> Inl e | Inr s3 \<Rightarrow>
      Inr (sync_old now s3))"

subsection \<open>The spec's rule list for the classifier\<close>

text \<open>The rules of section 4.1 of the spec, in its order, as pairs of a condition and
  an outcome; \<open>first_match\<close> takes the outcome of the first rule whose condition
  holds.\<close>

fun first_match :: "(bool \<times> 'a) list \<Rightarrow> 'a \<Rightarrow> 'a" where
  "first_match [] d = d"
| "first_match ((c, v) # rules) d = (if c then v else first_match rules d)"

definition classifier_rules :: "string \<Rightarrow> bool \<Rightarrow> int \<Rightarrow> (bool \<times> (string option \<times> int)) list" where
  "classifier_rules content is_redirect target_ns =
     [(is_redirect \<and> target_ns = 0, (Some ''accept'', 4)),
      (is_redirect, (None, 0)),
      (afc_marker ''r'' content, (Some ''review'', 3)),
      (afc_marker ''h'' content, (Some ''pend'', 2)),
      (afc_marker '''' content, (Some ''pend'', 1)),
      (afc_marker ''t'' content, (None, 0)),
      (afc_marker ''d'' content, (Some ''decline'', 5))]"

definition classifier_outcomes :: "(string option \<times> int) set" where
  "classifier_outcomes =
     {(Some ''accept'', 4), (None, 0), (Some ''review'', 3), (Some ''pend'', 2),
      (Some ''pend'', 1), (Some ''decline'', 5)}"

subsection \<open>Example inputs\<close>

text \<open>A record with the given id, status, title, latest revision id and special time;
  the other columns do not matter to the examples.\<close>

definition mk_row :: "int \<Rightarrow> string option \<Rightarrow> string \<Rightarrow> int \<Rightarrow> datetime option \<Rightarrow> page_row" where
  "mk_row pid st ttl oldid sp_time =
     \<lparr>page_id = pid, page_status = st, page_title = ttl, page_short = ttl,
      page_size = 10, page_notes = None, page_create_user = ''u'', page_create_time = 1,
      page_create_oldid = 1, page_modify_user = ''u'', page_modify_time = 2,
      page_modify_oldid = oldid, page_special_user = None, page_special_time = sp_time,
      page_special_oldid = None\<rparr>"

text \<open>Three records at time \<open>1000000\<close>: an accepted one one second past the
  retention window, a declined one 35 hours old, and a pending one.\<close>

definition ex8_store :: store where
  "ex8_store =
     \<lparr>page_tbl = [mk_row 1 (Some ''accept'') ''A'' 10 (Some (1000000 - 36 * 3600 - 1)),
                  mk_row 2 (Some ''decline'') ''B'' 20 (Some (1000000 - 35 * 3600)),
                  mk_row 3 (Some ''pend'') ''C'' 30 None],
      row_tbl = [\<lparr>row_id = 1, row_chart = 4\<rparr>, \<lparr>row_id = 2, row_chart = 5\<rparr>,
                 \<lparr>row_id = 3, row_chart = 1\<rparr>],
      chart_tbl = []\<rparr>"

text \<open>A page that is no redirect, and a task with a site, the default templates, no
  ignore list, a \<open>strptime\<close> that always succeeds and a \<open>strftime\<close> that prints the
  number of seconds.\<close>

definition mk_page :: "string \<Rightarrow> int \<Rightarrow> string \<Rightarrow> wiki_page" where
  "mk_page content pid ttl =
     \<lparr>wp_get = content, wp_is_redirect = False, wp_get_redirect_target = [],
      wp_namespace = 5, wp_pageid = pid, wp_title = ttl\<rparr>"

definition mk_task :: "site \<Rightarrow> task" where
  "mk_task st =
     \<lparr>tl_header = ''AFC statistics/header'', tl_row = ''AFC statistics/row'',
      tl_footer = ''AFC statistics/footer'', ignore_list = [], the_site = st,
      strftime = (\<lambda>t f. str_int t), strptime = (\<lambda>s f. Some 0)\<rparr>"

text \<open>A tracked page \<open>P\<close> whose current text carries no submission marker.\<close>

definition ex3_task :: task where
  "ex3_task = mk_task
     \<lparr>get_page = (\<lambda>t. mk_page ''Just an article draft.'' 1 ''P''),
      replica_pages = [\<lparr>rp_page_id = 1, rp_page_title = ''P'', rp_page_latest = 10\<rparr>],
      replica_revisions = [\<lparr>rev_id = 10, rev_user_text = ''u'', rev_timestamp = ''20110101000000''\<rparr>],
      category_members = []\<rparr>"

definition ex3_store :: store where
  "ex3_store = \<lparr>page_tbl = [mk_row 1 (Some ''pend'') ''P'' 10 None],
                row_tbl = [\<lparr>row_id = 1, row_chart = 1\<rparr>], chart_tbl = []\<rparr>"

text \<open>A page \<open>Q\<close> with a bare pending marker, an empty store, and the store that
  tracking \<open>Q\<close> is meant to produce.\<close>

definition ex4_task :: task where
  "ex4_task = mk_task
     \<lparr>get_page = (\<lambda>t. mk_page ''{{AFC submission||ts=20110101000000}} Text.'' 2 ''Q''),
      replica_pages = [\<lparr>rp_page_id = 2, rp_page_title = ''Q'', rp_page_latest = 20\<rparr>],
      replica_revisions = [\<lparr>rev_id = 2, rev_user_text = ''v'', rev_timestamp = ''20050101000000''\<rparr>,
                           \<lparr>rev_id = 20, rev_user_text = ''u'', rev_timestamp = ''20110101000000''\<rparr>],
      category_members = []\<rparr>"

definition ex4_store :: store where
  "ex4_store = \<lparr>page_tbl = [], row_tbl = [], chart_tbl = []\<rparr>"

definition ex4_tracked :: store where
  "ex4_tracked = \<lparr>page_tbl = [mk_row 2 (Some ''pend'') ''Q'' 20 None],
                   row_tbl = [\<lparr>row_id = 2, row_chart = 1\<rparr>], chart_tbl = []\<rparr>"

text \<open>A site whose replica knows no page at all.\<close>

definition ex5_task :: task where
  "ex5_task = mk_task
     \<lparr>get_page = (\<lambda>t. mk_page [] 0 t),
      replica_pages = [], replica_revisions = [], category_members = []\<rparr>"

subsection \<open>The statistics payload in the spec's words\<close>

text \<open>
  Section 4.5 of the spec: one block per catalog chart, in catalog order; a block is a
  header, one row per record of the chart's bucket in store order, and a footer; lines
  and blocks are joined by single newlines (\<open>join_lines\<close> is Python's
  \<open>"\\n".join\<close>). The test that decides whether an optional field is shown is the
  parameter \<open>present\<close>: the spec's "non-null" is \<open>\<lambda>v. v \<noteq> None\<close>, Python's truth
  test is \<open>truthy\<close>.
\<close>

fun join_lines :: "string list \<Rightarrow> string" where
  "join_lines [] = []"
| "join_lines [x] = x"
| "join_lines (x # y # ys) = x @ [CHR 0x0A] @ join_lines (y # ys)"

definition chart_header :: "(string option \<Rightarrow> bool) \<Rightarrow> task \<Rightarrow> chart_info \<Rightarrow> string" where
  "chart_header present self c =
     (case c of (chart_id, chart_title, special_title) \<Rightarrow>
        ''{{'' @ tl_header self @ ''|'' @ chart_title
        @ (if present special_title then ''|'' @ fmt_str special_title else [])
        @ ''}}'')"

definition chart_footer :: "task \<Rightarrow> string" where
  "chart_footer self = ''{{'' @ tl_footer self @ ''}}''"

definition row_block :: "(string option \<Rightarrow> bool) \<Rightarrow> task \<Rightarrow> page_row \<Rightarrow> string" where
  "row_block present self p =
     ''{{'' @ tl_row self
     @ ''|s='' @ fmt_str (page_status p) @ ''|t='' @ page_title p
     @ ''|h='' @ page_short p @ ''|z='' @ str_int (page_size p)
     @ ''|cr='' @ page_create_user p @ ''|cd='' @ format_time self (page_create_time p)
     @ ''|ci='' @ str_int (page_create_oldid p)
     @ ''|mr='' @ page_modify_user p @ ''|md='' @ format_time self (page_modify_time p)
     @ ''|mi='' @ str_int (page_modify_oldid p) @ ''|''
     @ (if present (page_special_user p)
        then ''sr='' @ fmt_str (page_special_user p)
             @ ''|sd='' @ (case page_special_time p of None \<Rightarrow> [] | Some t \<Rightarrow> format_time self t)
             @ ''|si='' @ fmt_int (page_special_oldid p) @ ''|''
        else [])
     @ (if present (page_notes p) then ''n=1'' @ fmt_str (page_notes p) else [])
     @ ''}}''"

definition chart_rows :: "store \<Rightarrow> chart_info \<Rightarrow> page_row list" where
  "chart_rows s c = map fst (filter (\<lambda>(p, r). row_chart r = fst c) (page_join_row s))"

definition chart_block :: "(string option \<Rightarrow> bool) \<Rightarrow> task \<Rightarrow> store \<Rightarrow> chart_info \<Rightarrow> string" where
  "chart_block present self s c =
     join_lines (chart_header present self c # map (row_block present self) (chart_rows s c)
                 @ [chart_footer self])"

definition payload :: "(string option \<Rightarrow> bool) \<Rightarrow> task \<Rightarrow> store \<Rightarrow> string" where
  "payload present self s = join_lines (map (chart_block present self s) (chart_tbl s))"

text \<open>A catalog chart whose special title is the empty string, and a store with one
  chart and two matching records, the second with notes, beside a record of another
  bucket.\<close>

definition ex10_task :: task where
  "ex10_task = mk_task \<lparr>get_page = (\<lambda>t. mk_page [] 0 t), replica_pages = [],
                        replica_revisions = [], category_members = []\<rparr>"

definition ex10_special :: store where
  "ex10_special = \<lparr>page_tbl = [], row_tbl = [], chart_tbl = [(4, ''Accepted'', Some [])]\<rparr>"

definition ex10_store :: store where
  "ex10_store =
     \<lparr>page_tbl = [mk_row 1 (Some ''pend'') ''A'' 10 None,
                  (mk_row 2 (Some ''pend'') ''B'' 20 None)\<lparr>page_notes := Some ''x''\<rparr>,
                  mk_row 3 (Some ''review'') ''C'' 30 None],
      row_tbl = [\<lparr>row_id = 1, row_chart = 1\<rparr>, \<lparr>row_id = 2, row_chart = 1\<rparr>,
                 \<lparr>row_id = 3, row_chart = 3\<rparr>],
      chart_tbl = [(1, ''Pending'', None)]\<rparr>"

text \<open>A tracked page whose title and latest revision have changed since the record was
  written, and the store that one \<open>update_page\<close> makes of it.\<close>

definition ex7_task :: task where
  "ex7_task = mk_task
     \<lparr>get_page = (\<lambda>t. mk_page ''{{AFC submission|h|ts=20110101000000}} Text.'' 1 ''P''),
      replica_pages = [\<lparr>rp_page_id = 1, rp_page_title = ''P'', rp_page_latest = 11\<rparr>],
      replica_revisions = [\<lparr>rev_id = 11, rev_user_text = ''w'', rev_timestamp = ''20110102000000''\<rparr>],
      category_members = []\<rparr>"

definition ex7_store :: store where
  "ex7_store = \<lparr>page_tbl = [mk_row 1 (Some ''pend'') ''P old'' 10 None],
                row_tbl = [\<lparr>row_id = 1, row_chart = 1\<rparr>], chart_tbl = []\<rparr>"

definition ex7_after :: store where
  "ex7_after =
     \<lparr>page_tbl = [(mk_row 1 (Some ''pend'') ''P'' 11 None)
                    \<lparr>page_size := 44, page_modify_user := ''w'', page_modify_time := 0\<rparr>],
      row_tbl = [\<lparr>row_id = 1, row_chart = 1\<rparr>], chart_tbl = []\<rparr>"

subsection \<open>The dispatcher and the special columns\<close>

text \<open>\<open>run\<close> dispatches on the action; \<open>save\<close> only reads the store and is left out.
  \<open>run_all\<close> runs a sequence of events, each with the server time of its \<open>NOW()\<close>.\<close>

datatype action = Sync | Edit string | Move "string \<times> string" | Delete string | Restore string

definition run :: "task \<Rightarrow> datetime \<Rightarrow> action \<Rightarrow> store \<Rightarrow> error + store" where
  "run self now a s =
     (case a of
        Sync \<Rightarrow> sync self now s
      | Edit page \<Rightarrow> process_edit self s page
      | Move page \<Rightarrow> process_move self s page
      | Delete page \<Rightarrow> process_delete self s page
      | Restore page \<Rightarrow> process_edit self s page)"

fun run_all :: "task \<Rightarrow> (datetime \<times> action) list \<Rightarrow> store \<Rightarrow> error + store" where
  "run_all self [] s = Inr s"
| "run_all self ((now, a) # events) s =
     (case run self now a s of Inl e \<Rightarrow> Inl e | Inr s' \<Rightarrow> run_all self events s')"

text \<open>Some, and all, of the three special columns of a record are non-null.\<close>

definition special_populated :: "page_row \<Rightarrow> bool" where
  "special_populated p =
     (page_special_user p \<noteq> None \<or> page_special_time p \<noteq> None \<or> page_special_oldid p \<noteq> None)"

definition special_all_set :: "page_row \<Rightarrow> bool" where
  "special_all_set p =
     (page_special_user p \<noteq> None \<and> page_special_time p \<noteq> None \<and> page_special_oldid p \<noteq> None)"

text \<open>The spec's invariant: in every joined row the special columns are non-null if and
  only if the bucket is 4 or 5.\<close>

definition special_iff_terminal :: "store \<Rightarrow> bool" where
  "special_iff_terminal s =
     list_all (\<lambda>(p, r). special_all_set p = (row_chart r \<in> {4, 5})) (page_join_row s)"

text \<open>What the engine does keep: \<open>page_id\<close> is a key, a null special revision id comes
  with a null special user and time, and a record with a non-null special column is in
  bucket 4 or 5.\<close>

definition engine_inv :: "store \<Rightarrow> bool" where
  "engine_inv s =
     (distinct (map page_id (page_tbl s)) \<and>
      (\<forall>p \<in> set (page_tbl s). page_special_oldid p = None \<longrightarrow>
           page_special_user p = None \<and> page_special_time p = None) \<and>
      (\<forall>(p, r) \<in> set (page_join_row s). special_populated p \<longrightarrow> row_chart r \<in> {4, 5}))"

text \<open>The tracked page \<open>P\<close> of \<open>ex3_store\<close> after a reviewer has declined it, and the
  store that the edit event makes of it.\<close>

definition ex9_task :: task where
  "ex9_task = mk_task
     \<lparr>get_page = (\<lambda>t. mk_page ''{{AFC submission|d|nn|ts=20110101000000}} Text.'' 1 ''P''),
      replica_pages = [\<lparr>rp_page_id = 1, rp_page_title = ''P'', rp_page_latest = 10\<rparr>],
      replica_revisions = [\<lparr>rev_id = 10, rev_user_text = ''u'', rev_timestamp = ''20110101000000''\<rparr>],
      category_members = []\<rparr>"

definition ex9_after :: store where
  "ex9_after = \<lparr>page_tbl = [mk_row 1 (Some ''decline'') ''P'' 10 None],
                row_tbl = [\<lparr>row_id = 1, row_chart = 5\<rparr>], chart_tbl = []\<rparr>"


text \<open>Statements that leave the keys, the rows of \<open>row\<close> and the special columns alone.\<close>

definition keeps_special :: "store \<Rightarrow> store \<Rightarrow> bool" where
  "keeps_special s s' =
     (\<exists>f. page_tbl s' = map f (page_tbl s) \<and> row_tbl s' = row_tbl s \<and>
          (\<forall>p. page_id (f p) = page_id p \<and> page_special_user (f p) = page_special_user p \<and>
               page_special_time (f p) = page_special_time p \<and>
               page_special_oldid (f p) = page_special_oldid p))"

subsection \<open>Stored and latest revision ids\<close>

text \<open>A record is fresh when the replica has a page of its id whose \<open>page_latest\<close> is the
  stored \<open>page_modify_oldid\<close>; \<open>page_id\<close> is the key of the replica's table, so that
  page is the record's page.\<close>

definition fresh :: "task \<Rightarrow> page_row \<Rightarrow> bool" where
  "fresh self p =
     list_ex (\<lambda>rp. rp_page_id rp = page_id p \<and> rp_page_latest rp = page_modify_oldid p)
       (replica_pages (the_site self))"

definition latest_synced :: "task \<Rightarrow> store \<Rightarrow> bool" where
  "latest_synced self s = list_all (fresh self) (page_tbl s)"

text \<open>A statement that rewrites rows of \<open>page\<close> with the given id only, and no key.\<close>

definition touches_only :: "int \<Rightarrow> store \<Rightarrow> store \<Rightarrow> bool" where
  "touches_only pid s s' =
     (\<exists>f. page_tbl s' = map f (page_tbl s) \<and>
          (\<forall>p. page_id (f p) = page_id p \<and> (page_id p \<noteq> pid \<longrightarrow> f p = p)))"

text \<open>Two tracked pages \<open>A\<close> and \<open>B\<close>, each with a revision that the store has not
  seen: the replica has 11 and 21 where the store has 10 and 20.\<close>

definition ex1_task :: task where
  "ex1_task = mk_task
     \<lparr>get_page = (\<lambda>t. if t = ''A'' then mk_page ''{{AFC submission||ts=20110101000000}} Text.'' 1 ''A''
                       else mk_page ''{{AFC submission||ts=20110101000000}} Other.'' 2 ''B''),
      replica_pages = [\<lparr>rp_page_id = 1, rp_page_title = ''A'', rp_page_latest = 11\<rparr>,
                       \<lparr>rp_page_id = 2, rp_page_title = ''B'', rp_page_latest = 21\<rparr>],
      replica_revisions = [\<lparr>rev_id = 11, rev_user_text = ''w'', rev_timestamp = ''20110102000000''\<rparr>,
                           \<lparr>rev_id = 21, rev_user_text = ''u'', rev_timestamp = ''20110102000000''\<rparr>],
      category_members = []\<rparr>"

definition ex1_store :: store where
  "ex1_store = \<lparr>page_tbl = [mk_row 1 (Some ''pend'') ''A'' 10 None,
                            mk_row 2 (Some ''pend'') ''B'' 20 None],
                row_tbl = [\<lparr>row_id = 1, row_chart = 1\<rparr>, \<lparr>row_id = 2, row_chart = 1\<rparr>],
                chart_tbl = []\<rparr>"

text \<open>The store after the purge-stale pass: the record of \<open>A\<close> has the revision 11, the
  record of \<open>B\<close> is as it was.\<close>

definition ex1_after :: store where
  "ex1_after = \<lparr>page_tbl = [(mk_row 1 (Some ''pend'') ''A'' 11 None)
                              \<lparr>page_size := 43, page_modify_user := ''w'', page_modify_time := 0\<rparr>,
                            mk_row 2 (Some ''pend'') ''B'' 20 None],
                row_tbl = [\<lparr>row_id = 1, row_chart = 1\<rparr>, \<lparr>row_id = 2, row_chart = 1\<rparr>],
                chart_tbl = []\<rparr>"

text \<open>Two declined pages, each with its reviewer, review time and reviewed revision
  stored; \<open>P1\<close> has since been resubmitted and carries a pending marker again, \<open>P2\<close> is
  unchanged.\<close>

definition ex9_declined :: "int \<Rightarrow> string \<Rightarrow> int \<Rightarrow> page_row" where
  "ex9_declined pid ttl oldid =
     (mk_row pid (Some ''decline'') ttl oldid (Some 100))
       \<lparr>page_special_user := Some ''r'', page_special_oldid := Some oldid\<rparr>"

definition ex9_resub_task :: task where
  "ex9_resub_task = mk_task
     \<lparr>get_page = (\<lambda>t. if t = ''P1'' then mk_page ''{{AFC submission||ts=20110101000000}} Text.'' 1 ''P1''
                       else mk_page ''{{AFC submission|d|ts=20110101000000}} Other.'' 2 ''P2''),
      replica_pages = [\<lparr>rp_page_id = 1, rp_page_title = ''P1'', rp_page_latest = 10\<rparr>,
                       \<lparr>rp_page_id = 2, rp_page_title = ''P2'', rp_page_latest = 20\<rparr>],
      replica_revisions = [\<lparr>rev_id = 10, rev_user_text = ''u'', rev_timestamp = ''20110101000000''\<rparr>,
                           \<lparr>rev_id = 20, rev_user_text = ''u'', rev_timestamp = ''20110101000000''\<rparr>],
      category_members = []\<rparr>"

definition ex9_resub_store :: store where
  "ex9_resub_store = \<lparr>page_tbl = [ex9_declined 1 ''P1'' 10, ex9_declined 2 ''P2'' 20],
                      row_tbl = [\<lparr>row_id = 1, row_chart = 5\<rparr>, \<lparr>row_id = 2, row_chart = 5\<rparr>],
                      chart_tbl = []\<rparr>"

definition ex9_resub_after :: store where
  "ex9_resub_after = \<lparr>page_tbl = [mk_row 1 (Some ''pend'') ''P1'' 10 None,
                                  ex9_declined 2 ''P2'' 20],
                      row_tbl = [\<lparr>row_id = 1, row_chart = 1\<rparr>, \<lparr>row_id = 2, row_chart = 5\<rparr>],
                      chart_tbl = []\<rparr>"

section \<open>Properties\<close>

subsection \<open>The status classifier\<close>

lemma first_match_in: "d \<in> A \<Longrightarrow> snd ` set rules \<subseteq> A \<Longrightarrow> first_match rules d \<in> A"
  by (induction rules) auto

text \<open>
  Claim C2. For every page content, redirect status and namespace of the redirect
  target, the classifier is a function of these three inputs alone (so it is
  deterministic and has no effect), it always returns, its result is the outcome of the
  first rule of the spec's ordered rule list that applies (the default \<open>(None, 0)\<close> when
  none does), and that result is one of the six outcomes.
\<close>

theorem classifier_first_match:
  "get_status_and_chart st page =
     first_match (classifier_rules (wp_get page) (wp_is_redirect page)
                    (wp_namespace (get_page st (wp_get_redirect_target page)))) (None, 0)
   \<and> get_status_and_chart st page \<in> classifier_outcomes"
proof -
  let ?rules = "classifier_rules (wp_get page) (wp_is_redirect page)
                    (wp_namespace (get_page st (wp_get_redirect_target page)))"
  have eq: "get_status_and_chart st page = first_match ?rules (None, 0)"
    by (simp add: get_status_and_chart_def classifier_rules_def Let_def)
  have "snd ` set ?rules \<subseteq> classifier_outcomes"
    by (simp add: classifier_rules_def classifier_outcomes_def)
  moreover have "(None, 0) \<in> classifier_outcomes"
    by (simp add: classifier_outcomes_def)
  ultimately have "first_match ?rules (None, 0) \<in> classifier_outcomes"
    by (rule first_match_in[rotated])
  with eq show ?thesis by simp
qed

text \<open>What the marker search means: somewhere in the content stands the literal, up to
  the case of ASCII letters, followed on the same line by \<open>}}\<close>.\<close>

lemma match_literal_iff:
  "match_literal lit s = Some rest \<longleftrightarrow>
     (\<exists>l. s = l @ rest \<and> map ascii_lower l = map ascii_lower lit)"
proof (induction lit s rule: match_literal.induct)
  case (1 s) show ?case by auto
next
  case (2 p ps) show ?case by auto
next
  case (3 p ps c cs)
  have rhs: "(\<exists>l. c # cs = l @ rest \<and> map ascii_lower l = map ascii_lower (p # ps)) \<longleftrightarrow>
        ascii_lower p = ascii_lower c \<and>
        (\<exists>l. cs = l @ rest \<and> map ascii_lower l = map ascii_lower ps)"
  proof
    assume "\<exists>l. c # cs = l @ rest \<and> map ascii_lower l = map ascii_lower (p # ps)"
    then obtain l where l: "c # cs = l @ rest" "map ascii_lower l = map ascii_lower (p # ps)"
      by blast
    from l(2) obtain a l' where al: "l = a # l'" by (cases l) auto
    with l have "a = c" "cs = l' @ rest" "ascii_lower a = ascii_lower p"
        "map ascii_lower l' = map ascii_lower ps"
      by auto
    then show "ascii_lower p = ascii_lower c \<and>
        (\<exists>l. cs = l @ rest \<and> map ascii_lower l = map ascii_lower ps)"
      by auto
  next
    assume h: "ascii_lower p = ascii_lower c \<and>
        (\<exists>l. cs = l @ rest \<and> map ascii_lower l = map ascii_lower ps)"
    then obtain l where "cs = l @ rest" "map ascii_lower l = map ascii_lower ps" by blast
    with h have "c # cs = (c # l) @ rest \<and> map ascii_lower (c # l) = map ascii_lower (p # ps)"
      by simp
    then show "\<exists>l. c # cs = l @ rest \<and> map ascii_lower l = map ascii_lower (p # ps)"
      by blast
  qed
  show ?case
  proof (cases "ascii_lower p = ascii_lower c")
    case True
    with 3 rhs show ?thesis by simp
  next
    case False
    with rhs show ?thesis by simp
  qed
qed

lemma match_lazy_close_iff:
  "match_lazy_close s \<longleftrightarrow> (\<exists>mid post. s = mid @ ''}}'' @ post \<and> CHR 0x0A \<notin> set mid)"
proof (induction s rule: match_lazy_close.induct)
  case 1 show ?case by simp
next
  case (2 c cs)
  show ?case
  proof (cases "c = CHR ''}'' \<and> (case cs of [] \<Rightarrow> False | d # _ \<Rightarrow> d = CHR ''}'')")
    case True
    then obtain post where "cs = CHR ''}'' # post" by (cases cs) auto
    with True have "c # cs = [] @ ''}}'' @ post" by simp
    then have "\<exists>mid post. c # cs = mid @ ''}}'' @ post \<and> CHR 0x0A \<notin> set mid"
      by (metis empty_iff list.set(1))
    with True show ?thesis by simp
  next
    case False
    have notnil: "\<And>mid post. c # cs = mid @ ''}}'' @ post \<Longrightarrow> mid \<noteq> []"
      using False by (auto split: list.splits)
    show ?thesis
    proof (cases "c = CHR 0x0A")
      case True
      have "\<not> (\<exists>mid post. c # cs = mid @ ''}}'' @ post \<and> CHR 0x0A \<notin> set mid)"
      proof
        assume "\<exists>mid post. c # cs = mid @ ''}}'' @ post \<and> CHR 0x0A \<notin> set mid"
        then obtain mid post where m: "c # cs = mid @ ''}}'' @ post" "CHR 0x0A \<notin> set mid" by blast
        from notnil[OF m(1)] obtain a m' where "mid = a # m'" by (cases mid) auto
        with m True show False by auto
      qed
      with True False show ?thesis by simp
    next
      case nl: False
      have "(\<exists>mid post. c # cs = mid @ ''}}'' @ post \<and> CHR 0x0A \<notin> set mid)
            \<longleftrightarrow> (\<exists>mid post. cs = mid @ ''}}'' @ post \<and> CHR 0x0A \<notin> set mid)"
      proof
        assume "\<exists>mid post. c # cs = mid @ ''}}'' @ post \<and> CHR 0x0A \<notin> set mid"
        then obtain mid post where m: "c # cs = mid @ ''}}'' @ post" "CHR 0x0A \<notin> set mid" by blast
        from notnil[OF m(1)] obtain a m' where "mid = a # m'" by (cases mid) auto
        with m have "cs = m' @ ''}}'' @ post" "CHR 0x0A \<notin> set m'" by auto
        then show "\<exists>mid post. cs = mid @ ''}}'' @ post \<and> CHR 0x0A \<notin> set mid" by blast
      next
        assume "\<exists>mid post. cs = mid @ ''}}'' @ post \<and> CHR 0x0A \<notin> set mid"
        then obtain mid post where m: "cs = mid @ ''}}'' @ post" "CHR 0x0A \<notin> set mid" by blast
        with nl have "c # cs = (c # mid) @ ''}}'' @ post" "CHR 0x0A \<notin> set (c # mid)" by auto
        then show "\<exists>mid post. c # cs = mid @ ''}}'' @ post \<and> CHR 0x0A \<notin> set mid" by blast
      qed
      moreover have "match_lazy_close cs \<longleftrightarrow>
          (\<exists>mid post. cs = mid @ ''}}'' @ post \<and> CHR 0x0A \<notin> set mid)"
        using 2 False nl by blast
      moreover have "match_lazy_close (c # cs) = match_lazy_close cs"
        using False nl by (auto split: list.splits)
      ultimately show ?thesis by simp
    qed
  qed
qed

lemma re_search_iff: "re_search lit s \<longleftrightarrow> (\<exists>pre suf. s = pre @ suf \<and> match_here lit suf)"
proof (induction s)
  case Nil show ?case by simp
next
  case (Cons c cs)
  show ?case
  proof
    assume "re_search lit (c # cs)"
    then consider "match_here lit (c # cs)" | "re_search lit cs" by auto
    then show "\<exists>pre suf. c # cs = pre @ suf \<and> match_here lit suf"
    proof cases
      case 1 then show ?thesis by (metis append_Nil)
    next
      case 2
      with Cons obtain pre suf where "cs = pre @ suf" "match_here lit suf" by blast
      then have "c # cs = (c # pre) @ suf" by simp
      with \<open>match_here lit suf\<close> show ?thesis by blast
    qed
  next
    assume "\<exists>pre suf. c # cs = pre @ suf \<and> match_here lit suf"
    then obtain pre suf where ps: "c # cs = pre @ suf" "match_here lit suf" by blast
    show "re_search lit (c # cs)"
    proof (cases pre)
      case Nil
      with ps have "match_here lit (c # cs)" by simp
      then show ?thesis by simp
    next
      case (Cons a pre')
      with ps have "cs = pre' @ suf" by simp
      with ps Cons.IH show ?thesis by auto
    qed
  qed
qed

lemma match_here_iff:
  "match_here lit s \<longleftrightarrow>
     (\<exists>l mid post. s = l @ mid @ ''}}'' @ post \<and> map ascii_lower l = map ascii_lower lit \<and>
        CHR 0x0A \<notin> set mid)"
proof
  assume "match_here lit s"
  then obtain rest where r: "match_literal lit s = Some rest" "match_lazy_close rest"
    by (auto simp: match_here_def split: option.splits)
  from r(1) obtain l where l: "s = l @ rest" "map ascii_lower l = map ascii_lower lit"
    using match_literal_iff by blast
  from r(2) obtain mid post where m: "rest = mid @ ''}}'' @ post" "CHR 0x0A \<notin> set mid"
    using match_lazy_close_iff by blast
  from l m show "\<exists>l mid post. s = l @ mid @ ''}}'' @ post \<and>
      map ascii_lower l = map ascii_lower lit \<and> CHR 0x0A \<notin> set mid"
    by blast
next
  assume "\<exists>l mid post. s = l @ mid @ ''}}'' @ post \<and> map ascii_lower l = map ascii_lower lit \<and>
        CHR 0x0A \<notin> set mid"
  then obtain l mid post where h: "s = l @ (mid @ ''}}'' @ post)"
      "map ascii_lower l = map ascii_lower lit" "CHR 0x0A \<notin> set mid"
    by auto
  from h(1,2) have "match_literal lit s = Some (mid @ ''}}'' @ post)"
    using match_literal_iff by blast
  moreover from h(3) have "match_lazy_close (mid @ ''}}'' @ post)"
    using match_lazy_close_iff by blast
  ultimately show "match_here lit s" by (simp add: match_here_def)
qed

theorem afc_marker_meaning:
  "afc_marker x content \<longleftrightarrow>
     (\<exists>pre lit mid post. content = pre @ lit @ mid @ ''}}'' @ post \<and>
        map ascii_lower lit = map ascii_lower (''{{afc submission|'' @ x @ ''|'') \<and>
        CHR 0x0A \<notin> set mid)"
  unfolding afc_marker_def re_search_iff match_here_iff by blast

subsection \<open>The age-out pass\<close>

lemma old_enough_iff:
  "old_enough now p r \<longleftrightarrow>
     page_id p = row_id r \<and> (row_chart r = 4 \<or> row_chart r = 5) \<and>
     (\<exists>t. page_special_time p = Some t \<and> t + 129600 < now)"
  by (auto simp: old_enough_def split: option.splits)

text \<open>
  Claim C8. The age-out pass is one delete over both tables. It removes from \<open>page\<close>
  exactly the records that have a row in bucket 4 or 5 and a special time with
  special time + 36 h < now, and from \<open>row\<close> exactly the rows in bucket 4 or 5 of such
  a record; the chart catalog is untouched. So a terminal record with special time
  now - 36 h - 1 s goes together with its row, a record with special time now - 35 h
  stays, and rows in buckets 1 to 3 and records whose rows all are in buckets 1 to 3
  stay.
\<close>

theorem sync_old_exact:
  "page_tbl (sync_old now s) =
     filter (\<lambda>p. \<not> (\<exists>r \<in> set (row_tbl s). page_id p = row_id r \<and>
                        (row_chart r = 4 \<or> row_chart r = 5) \<and>
                        (\<exists>t. page_special_time p = Some t \<and> t + 129600 < now)))
       (page_tbl s)
   \<and> row_tbl (sync_old now s) =
     filter (\<lambda>r. \<not> (\<exists>p \<in> set (page_tbl s). page_id p = row_id r \<and>
                        (row_chart r = 4 \<or> row_chart r = 5) \<and>
                        (\<exists>t. page_special_time p = Some t \<and> t + 129600 < now)))
       (row_tbl s)
   \<and> chart_tbl (sync_old now s) = chart_tbl s
   \<and> (p \<in> set (page_tbl s) \<and> r \<in> set (row_tbl s) \<and> page_id p = row_id r \<and>
      (row_chart r = 4 \<or> row_chart r = 5) \<and>
      page_special_time p = Some (now - 36 * 3600 - 1)
      \<longrightarrow> p \<notin> set (page_tbl (sync_old now s)) \<and> r \<notin> set (row_tbl (sync_old now s)))
   \<and> (p \<in> set (page_tbl s) \<and> page_special_time p = Some (now - 35 * 3600)
      \<longrightarrow> p \<in> set (page_tbl (sync_old now s)))
   \<and> (r \<in> set (row_tbl s) \<and> row_chart r \<in> {1, 2, 3}
      \<longrightarrow> r \<in> set (row_tbl (sync_old now s)))
   \<and> (p \<in> set (page_tbl s) \<and>
      (\<forall>r \<in> set (row_tbl s). page_id p = row_id r \<longrightarrow> row_chart r \<in> {1, 2, 3})
      \<longrightarrow> p \<in> set (page_tbl (sync_old now s)))"
proof -
  have pages: "page_tbl (sync_old now s) =
     filter (\<lambda>p. \<not> (\<exists>r \<in> set (row_tbl s). page_id p = row_id r \<and>
                        (row_chart r = 4 \<or> row_chart r = 5) \<and>
                        (\<exists>t. page_special_time p = Some t \<and> t + 129600 < now)))
       (page_tbl s)"
    by (simp add: sync_old_def list_ex_iff old_enough_iff)
  have rows: "row_tbl (sync_old now s) =
     filter (\<lambda>r. \<not> (\<exists>p \<in> set (page_tbl s). page_id p = row_id r \<and>
                        (row_chart r = 4 \<or> row_chart r = 5) \<and>
                        (\<exists>t. page_special_time p = Some t \<and> t + 129600 < now)))
       (row_tbl s)"
    by (simp add: sync_old_def list_ex_iff old_enough_iff)
  have charts: "chart_tbl (sync_old now s) = chart_tbl s"
    by (simp add: sync_old_def)
  have gone: "p \<in> set (page_tbl s) \<and> r \<in> set (row_tbl s) \<and> page_id p = row_id r \<and>
      (row_chart r = 4 \<or> row_chart r = 5) \<and>
      page_special_time p = Some (now - 36 * 3600 - 1)
      \<longrightarrow> p \<notin> set (page_tbl (sync_old now s)) \<and> r \<notin> set (row_tbl (sync_old now s))"
    unfolding pages rows by auto
  have kept: "p \<in> set (page_tbl s) \<and> page_special_time p = Some (now - 35 * 3600)
      \<longrightarrow> p \<in> set (page_tbl (sync_old now s))"
    unfolding pages by auto
  have low_rows: "r \<in> set (row_tbl s) \<and> row_chart r \<in> {1, 2, 3}
      \<longrightarrow> r \<in> set (row_tbl (sync_old now s))"
    unfolding rows by auto
  have low_pages: "p \<in> set (page_tbl s) \<and>
      (\<forall>r \<in> set (row_tbl s). page_id p = row_id r \<longrightarrow> row_chart r \<in> {1, 2, 3})
      \<longrightarrow> p \<in> set (page_tbl (sync_old now s))"
    unfolding pages by auto
  from pages rows charts gone kept low_rows low_pages show ?thesis by blast
qed

theorem sync_old_exact_witness:
  "mk_row 1 (Some ''accept'') ''A'' 10 (Some (1000000 - 36 * 3600 - 1))
       \<notin> set (page_tbl (sync_old 1000000 ex8_store))
   \<and> \<lparr>row_id = 1, row_chart = 4\<rparr> \<notin> set (row_tbl (sync_old 1000000 ex8_store))
   \<and> mk_row 2 (Some ''decline'') ''B'' 20 (Some (1000000 - 35 * 3600))
       \<in> set (page_tbl (sync_old 1000000 ex8_store))
   \<and> \<lparr>row_id = 3, row_chart = 1\<rparr> \<in> set (row_tbl (sync_old 1000000 ex8_store))
   \<and> mk_row 3 (Some ''pend'') ''C'' 30 None \<in> set (page_tbl (sync_old 1000000 ex8_store))"
proof -
  let ?p1 = "mk_row 1 (Some ''accept'') ''A'' 10 (Some (1000000 - 36 * 3600 - 1))"
  let ?r1 = "\<lparr>row_id = 1, row_chart = 4\<rparr>"
  let ?p2 = "mk_row 2 (Some ''decline'') ''B'' 20 (Some (1000000 - 35 * 3600))"
  let ?p3 = "mk_row 3 (Some ''pend'') ''C'' 30 None"
  let ?r3 = "\<lparr>row_id = 3, row_chart = 1\<rparr>"
  have h1: "?p1 \<in> set (page_tbl ex8_store) \<and> ?r1 \<in> set (row_tbl ex8_store) \<and>
      page_id ?p1 = row_id ?r1 \<and> (row_chart ?r1 = 4 \<or> row_chart ?r1 = 5) \<and>
      page_special_time ?p1 = Some (1000000 - 36 * 3600 - 1)"
    by (simp add: ex8_store_def mk_row_def)
  have h2: "?p2 \<in> set (page_tbl ex8_store) \<and>
      page_special_time ?p2 = Some (1000000 - 35 * 3600)"
    by (simp add: ex8_store_def mk_row_def)
  have h3: "?r3 \<in> set (row_tbl ex8_store) \<and> row_chart ?r3 \<in> {1, 2, 3}"
    by (simp add: ex8_store_def)
  have h4: "?p3 \<in> set (page_tbl ex8_store) \<and>
      (\<forall>r \<in> set (row_tbl ex8_store). page_id ?p3 = row_id r \<longrightarrow> row_chart r \<in> {1, 2, 3})"
    by (simp add: ex8_store_def mk_row_def)
  from sync_old_exact[of 1000000 ex8_store ?p1 ?r1] h1
  have g1: "?p1 \<notin> set (page_tbl (sync_old 1000000 ex8_store)) \<and>
            ?r1 \<notin> set (row_tbl (sync_old 1000000 ex8_store))"
    by blast
  from sync_old_exact[of 1000000 ex8_store ?p2 ?r3] h2 h3
  have g2: "?p2 \<in> set (page_tbl (sync_old 1000000 ex8_store)) \<and>
            ?r3 \<in> set (row_tbl (sync_old 1000000 ex8_store))"
    by blast
  from sync_old_exact[of 1000000 ex8_store ?p3 ?r3] h4
  have g3: "?p3 \<in> set (page_tbl (sync_old 1000000 ex8_store))"
    by blast
  from g1 g2 g3 show ?thesis by blast
qed

subsection \<open>Tracking and untracking\<close>

lemma untrack_page_raises:
  "param_truthy pageid \<or> param_truthy title \<Longrightarrow> untrack_page s pageid title = Inl ProgrammingError"
  by (auto simp: untrack_page_def execute_untrack_query_def)

lemma get_create_raises: "get_create self pageid = Inl IndexError \<or> get_create self pageid = Inl NameError"
  by (simp add: get_create_def split: list.splits)

lemma track_page_cases:
  "track_page self s title = Inr s \<or> track_page self s title = Inl IndexError \<or>
   track_page self s title = Inl NameError"
  using get_create_raises[of self "wp_pageid (get_page (the_site self) title)"]
  by (auto simp: track_page_def Let_def split: prod.splits)

text \<open>
  Claim C3 (about the code as it is). When the classifier says that the page is not a
  tracked submission, \<open>update_page\<close> does not remove the record: the \<open>DELETE\<close> of
  \<open>untrack_page\<close> is rejected by the server, and \<open>update_page\<close> ends with
  \<open>ProgrammingError\<close>, whatever the store holds.
\<close>

theorem update_page_untracked_raises:
  "title \<noteq> [] \<and> fst (get_status_and_chart (the_site self) (get_page (the_site self) title)) = None
   \<longrightarrow> update_page self s title = Inl ProgrammingError"
proof
  assume h: "title \<noteq> [] \<and>
     fst (get_status_and_chart (the_site self) (get_page (the_site self) title)) = None"
  then obtain chart where
    c: "get_status_and_chart (the_site self) (get_page (the_site self) title) = (None, chart)"
    by (cases "get_status_and_chart (the_site self) (get_page (the_site self) title)") auto
  from h have "untrack_page s None (Some (PStr title)) = Inl ProgrammingError"
    by (simp add: untrack_page_raises)
  with c show "update_page self s title = Inl ProgrammingError"
    by (simp add: update_page_def)
qed

theorem update_page_untracked_raises_witness:
  "select_joined ex3_store 1 \<noteq> []
   \<and> get_status_and_chart (the_site ex3_task) (get_page (the_site ex3_task) ''P'') = (None, 0)
   \<and> update_page ex3_task ex3_store ''P'' = Inl ProgrammingError"
proof -
  have c: "get_status_and_chart (the_site ex3_task) (get_page (the_site ex3_task) ''P'') = (None, 0)"
    by code_simp
  have j: "select_joined ex3_store 1 \<noteq> []"
    by code_simp
  from c have "''P'' \<noteq> [] \<and>
     fst (get_status_and_chart (the_site ex3_task) (get_page (the_site ex3_task) ''P'')) = None"
    by simp
  with update_page_untracked_raises[of "''P''" ex3_task ex3_store]
  have "update_page ex3_task ex3_store ''P'' = Inl ProgrammingError" by blast
  with c j show ?thesis by blast
qed

text \<open>
  Claim C4 (about the code as it is). \<open>track_page\<close> never inserts: it returns the
  store as it was, or it raises \<open>IndexError\<close> or \<open>NameError\<close> in \<open>get_create\<close>. And
  \<open>untrack_page\<close> with a page id or a title raises \<open>ProgrammingError\<close>, whether the
  page is in the store or not: it deletes nothing and is no no-op on an absent page.
\<close>

theorem track_untrack_broken:
  "(track_page self s title = Inr s \<or> track_page self s title = Inl IndexError \<or>
    track_page self s title = Inl NameError)
   \<and> (pageid \<noteq> 0 \<longrightarrow> untrack_page s (Some (PInt pageid)) None = Inl ProgrammingError)
   \<and> (title \<noteq> [] \<longrightarrow> untrack_page s None (Some (PStr title)) = Inl ProgrammingError)"
  using track_page_cases[of self s title] by (simp add: untrack_page_raises)

theorem track_untrack_broken_witness:
  "get_status_and_chart (the_site ex4_task) (get_page (the_site ex4_task) ''Q'') = (Some ''pend'', 1)
   \<and> track_page ex4_task ex4_store ''Q'' = Inl NameError
   \<and> untrack_page ex4_tracked (Some (PInt 2)) None = Inl ProgrammingError
   \<and> untrack_page ex4_tracked None (Some (PStr ''Q'')) = Inl ProgrammingError
   \<and> untrack_page ex4_store None (Some (PStr ''Q'')) = Inl ProgrammingError"
proof -
  have c: "get_status_and_chart (the_site ex4_task) (get_page (the_site ex4_task) ''Q'')
             = (Some ''pend'', 1)"
    by code_simp
  have t: "track_page ex4_task ex4_store ''Q'' = Inl NameError"
    by code_simp
  have n: "(2::int) \<noteq> 0" "''Q'' \<noteq> []" by simp_all
  from track_untrack_broken[of ex4_task ex4_tracked "''Q''" 2] n
  have u: "untrack_page ex4_tracked (Some (PInt 2)) None = Inl ProgrammingError"
          "untrack_page ex4_tracked None (Some (PStr ''Q'')) = Inl ProgrammingError"
    by blast+
  from track_untrack_broken[of ex4_task ex4_store "''Q''" 2] n
  have v: "untrack_page ex4_store None (Some (PStr ''Q'')) = Inl ProgrammingError"
    by blast
  from c t u v show ?thesis by blast
qed

subsection \<open>Failures inside the entry points\<close>

text \<open>
  Claim C5 (about the code as it is). For a page that the replica does not know,
  \<open>process_delete\<close> ends with \<open>IndexError\<close>; for a page it knows, \<open>process_delete\<close> is
  \<open>sync_page\<close>, so its untrack branch is never taken. \<open>get_modify\<close> of a page id that
  the replica does not know ends with \<open>IndexError\<close> too.
\<close>

theorem process_delete_raises:
  "((\<forall>p \<in> set (replica_pages (the_site self)). rp_page_title p \<noteq> page)
      \<longrightarrow> process_delete self s page = Inl IndexError)
   \<and> ((\<exists>p \<in> set (replica_pages (the_site self)). rp_page_title p = page)
      \<longrightarrow> process_delete self s page = sync_page self s page)
   \<and> ((\<forall>p \<in> set (replica_pages (the_site self)). rp_page_id p \<noteq> pageid)
      \<longrightarrow> get_modify self pageid = Inl IndexError)"
proof (intro conjI impI)
  assume "\<forall>p \<in> set (replica_pages (the_site self)). rp_page_title p \<noteq> page"
  then have "filter (\<lambda>p. rp_page_title p = page) (replica_pages (the_site self)) = []"
    by (simp add: filter_empty_conv)
  then show "process_delete self s page = Inl IndexError"
    by (simp add: process_delete_def)
next
  assume "\<exists>p \<in> set (replica_pages (the_site self)). rp_page_title p = page"
  then have "filter (\<lambda>p. rp_page_title p = page) (replica_pages (the_site self)) \<noteq> []"
    by (simp add: filter_empty_conv)
  then obtain r rs where
    "filter (\<lambda>p. rp_page_title p = page) (replica_pages (the_site self)) = r # rs"
    by (cases "filter (\<lambda>p. rp_page_title p = page) (replica_pages (the_site self))") auto
  then show "process_delete self s page = sync_page self s page"
    by (simp add: process_delete_def)
next
  assume "\<forall>p \<in> set (replica_pages (the_site self)). rp_page_id p \<noteq> pageid"
  then have c: "concat (map (\<lambda>r. map (\<lambda>p. r)
                      (filter (\<lambda>p. rev_id r = rp_page_latest p \<and> rp_page_id p = pageid)
                         (replica_pages (the_site self))))
                    (replica_revisions (the_site self))) = []"
    by (simp add: filter_empty_conv)
  show "get_modify self pageid = Inl IndexError"
    unfolding get_modify_def Let_def c by simp
qed

theorem process_delete_raises_witness:
  "page_title (mk_row 1 (Some ''pend'') ''P'' 10 None) = ''P''
   \<and> mk_row 1 (Some ''pend'') ''P'' 10 None \<in> set (page_tbl ex3_store)
   \<and> process_delete ex5_task ex3_store ''P'' = Inl IndexError
   \<and> get_modify ex5_task 1 = Inl IndexError"
proof -
  have e: "replica_pages (the_site ex5_task) = []"
    by (simp add: ex5_task_def mk_task_def)
  have "\<forall>p \<in> set (replica_pages (the_site ex5_task)). rp_page_title p \<noteq> ''P''"
       "\<forall>p \<in> set (replica_pages (the_site ex5_task)). rp_page_id p \<noteq> 1"
    by (simp_all add: e)
  with process_delete_raises[of ex5_task "''P''" ex3_store 1]
  have "process_delete ex5_task ex3_store ''P'' = Inl IndexError"
       "get_modify ex5_task 1 = Inl IndexError"
    by blast+
  moreover have "page_title (mk_row 1 (Some ''pend'') ''P'' 10 None) = ''P''"
    "mk_row 1 (Some ''pend'') ''P'' 10 None \<in> set (page_tbl ex3_store)"
    by (simp_all add: mk_row_def ex3_store_def)
  ultimately show ?thesis by blast
qed

text \<open>
  Claim C6 (about the code as it is). When the source title has a record and the
  replica knows no page of the destination title, \<open>process_move\<close> does not fall back to
  the stored revision id: it ends with \<open>IndexError\<close> (with \<open>TypeError\<close> if twelve or
  more records have the source title).
\<close>

theorem process_move_fallback_raises:
  "(\<exists>p \<in> set (page_tbl s). page_title p = source) \<and>
   (\<forall>p \<in> set (replica_pages (the_site self)). rp_page_title p \<noteq> dest)
   \<longrightarrow> process_move self s (source, dest) =
        (if 11 < length (filter (\<lambda>p. page_title p = source) (page_tbl s))
         then Inl TypeError else Inl IndexError)"
proof
  assume h: "(\<exists>p \<in> set (page_tbl s). page_title p = source) \<and>
   (\<forall>p \<in> set (replica_pages (the_site self)). rp_page_title p \<noteq> dest)"
  then have a: "filter (\<lambda>p. page_title p = source) (page_tbl s) \<noteq> []"
    by (simp add: filter_empty_conv)
  from h have b: "filter (\<lambda>p. rp_page_title p = dest) (replica_pages (the_site self)) = []"
    by (simp add: filter_empty_conv)
  from a b show "process_move self s (source, dest) =
        (if 11 < length (filter (\<lambda>p. page_title p = source) (page_tbl s))
         then Inl TypeError else Inl IndexError)"
    by (simp add: process_move_def)
qed

theorem process_move_fallback_raises_witness:
  "page_tbl ex3_store = [mk_row 1 (Some ''pend'') ''P'' 10 None]
   \<and> page_modify_oldid (mk_row 1 (Some ''pend'') ''P'' 10 None) = 10
   \<and> process_move ex5_task ex3_store (''P'', ''P2'') = Inl IndexError"
proof -
  have p: "page_tbl ex3_store = [mk_row 1 (Some ''pend'') ''P'' 10 None]"
    by (simp add: ex3_store_def)
  have t: "page_title (mk_row 1 (Some ''pend'') ''P'' 10 None) = ''P''"
          "page_modify_oldid (mk_row 1 (Some ''pend'') ''P'' 10 None) = 10"
    by (simp_all add: mk_row_def)
  have e: "replica_pages (the_site ex5_task) = []"
    by (simp add: ex5_task_def mk_task_def)
  from p t e have "(\<exists>p \<in> set (page_tbl ex3_store). page_title p = ''P'') \<and>
     (\<forall>p \<in> set (replica_pages (the_site ex5_task)). rp_page_title p \<noteq> ''P2'')"
    by simp
  with process_move_fallback_raises[of ex3_store "''P''" ex5_task "''P2''"]
  have "process_move ex5_task ex3_store (''P'', ''P2'') =
        (if 11 < length (filter (\<lambda>p. page_title p = ''P'') (page_tbl ex3_store))
         then Inl TypeError else Inl IndexError)"
    by blast
  with p t show ?thesis by simp
qed

subsection \<open>The chart compiler\<close>

lemma join_lines_Cons: "join_lines (x # xs) = x @ concat (map (\<lambda>y. CHR 0x0A # y) xs)"
  by (induction xs arbitrary: x) auto

lemma butlast_concat_lines: "butlast (concat (map (\<lambda>x. x @ [CHR 0x0A]) xs)) = join_lines xs"
proof (induction xs)
  case Nil show ?case by simp
next
  case (Cons x xs)
  show ?case
  proof (cases xs)
    case Nil then show ?thesis by simp
  next
    case (Cons y ys)
    then have ne: "concat (map (\<lambda>x. x @ [CHR 0x0A]) xs) \<noteq> []" by simp
    have "butlast (concat (map (\<lambda>x. x @ [CHR 0x0A]) (x # xs)))
          = butlast ((x @ [CHR 0x0A]) @ concat (map (\<lambda>x. x @ [CHR 0x0A]) xs))"
      by simp
    also have "\<dots> = (x @ [CHR 0x0A]) @ butlast (concat (map (\<lambda>x. x @ [CHR 0x0A]) xs))"
      using ne by (simp only: butlast_append if_False)
    also have "\<dots> = x @ [CHR 0x0A] @ join_lines xs"
      using Cons.IH by simp
    also have "\<dots> = join_lines (x # xs)"
      using Cons by simp
    finally show ?thesis .
  qed
qed

lemma compile_chart_row_block:
  "(truthy (page_special_user p) \<longrightarrow> page_special_time p \<noteq> None)
   \<Longrightarrow> compile_chart_row self p = Inr (row_block truthy self p)"
  by (auto simp: compile_chart_row_def row_block_def Let_def split: option.splits)

lemma compile_chart_rows_blocks:
  "(\<forall>p \<in> set ps. truthy (page_special_user p) \<longrightarrow> page_special_time p \<noteq> None)
   \<Longrightarrow> compile_chart_rows self ps acc
       = Inr (acc @ concat (map (\<lambda>p. CHR 0x0A # row_block truthy self p) ps))"
proof (induction ps arbitrary: acc)
  case Nil show ?case by simp
next
  case (Cons p ps)
  then have "compile_chart_row self p = Inr (row_block truthy self p)"
    by (simp add: compile_chart_row_block)
  with Cons show ?case by simp
qed

lemma page_join_row_fst: "(p, r) \<in> set (page_join_row s) \<Longrightarrow> p \<in> set (page_tbl s)"
  by (auto simp: page_join_row_def)

lemma chart_rows_subset: "set (chart_rows s c) \<subseteq> set (page_tbl s)"
  by (auto simp: chart_rows_def dest: page_join_row_fst)

lemma compile_chart_block:
  assumes "\<forall>p \<in> set (page_tbl s). truthy (page_special_user p) \<longrightarrow> page_special_time p \<noteq> None"
  shows "compile_chart self s c = Inr (chart_block truthy self s c)"
proof -
  obtain chart_id chart_title special_title where c: "c = (chart_id, chart_title, special_title)"
    by (cases c) auto
  let ?hdr = "chart_header truthy self c"
  have rows: "map fst (filter (\<lambda>(p, r). row_chart r = chart_id) (page_join_row s)) = chart_rows s c"
    by (simp add: chart_rows_def c)
  from assms chart_rows_subset[of s c]
  have ok: "\<forall>p \<in> set (chart_rows s c). truthy (page_special_user p) \<longrightarrow> page_special_time p \<noteq> None"
    by blast
  have "compile_chart self s c =
        (case compile_chart_rows self (chart_rows s c) ?hdr of
           Inl e \<Rightarrow> Inl e
         | Inr chart \<Rightarrow> Inr (chart @ [CHR 0x0A] @ ''{{'' @ tl_footer self @ ''}}''))"
    by (simp add: compile_chart_def c Let_def chart_header_def chart_rows_def)
  also have "\<dots> = Inr ((?hdr @ concat (map (\<lambda>p. CHR 0x0A # row_block truthy self p) (chart_rows s c)))
                       @ [CHR 0x0A] @ chart_footer self)"
    by (simp add: compile_chart_rows_blocks[OF ok] chart_footer_def)
  also have "\<dots> = Inr (chart_block truthy self s c)"
    by (simp add: chart_block_def join_lines_Cons map_concat comp_def)
  finally show ?thesis .
qed

lemma compile_charts_loop_blocks:
  assumes "\<forall>p \<in> set (page_tbl s). truthy (page_special_user p) \<longrightarrow> page_special_time p \<noteq> None"
  shows "compile_charts_loop self s cs acc
         = Inr (acc @ concat (map (\<lambda>c. chart_block truthy self s c @ [CHR 0x0A]) cs))"
proof (induction cs arbitrary: acc)
  case Nil show ?case by simp
next
  case (Cons c cs)
  show ?case by (simp add: compile_chart_block[OF assms] Cons)
qed

lemma last_join_lines_aux:
  "xs \<noteq> [] \<Longrightarrow> last xs \<noteq> [] \<Longrightarrow>
     join_lines xs \<noteq> [] \<and> last (join_lines xs) = last (last xs)"
  by (induction xs rule: join_lines.induct) auto

lemma last_join_lines: "xs \<noteq> [] \<Longrightarrow> last xs \<noteq> [] \<Longrightarrow> last (join_lines xs) = last (last xs)"
  by (simp add: last_join_lines_aux)

lemma join_lines_Nil_iff: "join_lines xs = [] \<longleftrightarrow> (\<forall>x \<in> set xs. x = []) \<and> length xs \<le> 1"
  by (induction xs rule: join_lines.induct) auto

lemma chart_block_last: "chart_block present self s c \<noteq> [] \<and> last (chart_block present self s c) = CHR ''}''"
proof -
  let ?xs = "chart_header present self c # map (row_block present self) (chart_rows s c)
             @ [chart_footer self]"
  have l: "last ?xs = chart_footer self" by simp
  have f: "chart_footer self \<noteq> []" "last (chart_footer self) = CHR ''}''"
    by (simp_all add: chart_footer_def)
  have "last (join_lines ?xs) = last (last ?xs)"
    by (rule last_join_lines) (simp_all add: f)
  moreover have "join_lines ?xs \<noteq> []"
    by (simp add: join_lines_Nil_iff)
  ultimately show ?thesis
    using f by (simp add: chart_block_def)
qed

lemma payload_last: "chart_tbl s \<noteq> [] \<Longrightarrow> last (payload present self s) = CHR ''}''"
proof -
  assume ne: "chart_tbl s \<noteq> []"
  let ?bs = "map (chart_block present self s) (chart_tbl s)"
  from ne have l: "last ?bs = chart_block present self s (last (chart_tbl s))"
    by (simp add: last_map)
  from ne have "last (join_lines ?bs) = last (last ?bs)"
    by (intro last_join_lines) (simp_all add: l chart_block_last)
  then show ?thesis
    by (simp add: payload_def l chart_block_last)
qed

text \<open>
  Claim C10, amended. Provided every record with a true (non-null and non-empty)
  special user has a special time, \<open>compile_charts\<close> returns the spec's payload with
  "present" read as Python's truth test: the blocks of the catalog charts in catalog
  order, each a header with the chart title (and the special title when it is non-null
  and non-empty), the rows of the records of that bucket in store order (with the
  special triple when the special user is non-null and non-empty, and the notes flag
  and text when the notes are non-null and non-empty) and a footer, all joined by
  single newlines; a non-empty payload ends with the footer's closing brace, not with a
  newline.
\<close>

theorem compile_charts_payload:
  "(\<forall>p \<in> set (page_tbl s). truthy (page_special_user p) \<longrightarrow> page_special_time p \<noteq> None)
   \<longrightarrow> compile_charts self s = Inr (payload truthy self s)
       \<and> (chart_tbl s \<noteq> [] \<longrightarrow> last (payload truthy self s) = CHR ''}'')"
proof
  assume ok: "\<forall>p \<in> set (page_tbl s). truthy (page_special_user p) \<longrightarrow> page_special_time p \<noteq> None"
  have "compile_charts self s =
        Inr (butlast (concat (map (\<lambda>c. chart_block truthy self s c @ [CHR 0x0A]) (chart_tbl s))))"
    by (simp add: compile_charts_def compile_charts_loop_blocks[OF ok])
  also have "concat (map (\<lambda>c. chart_block truthy self s c @ [CHR 0x0A]) (chart_tbl s))
             = concat (map (\<lambda>x. x @ [CHR 0x0A]) (map (chart_block truthy self s) (chart_tbl s)))"
    by (simp add: comp_def)
  also have "butlast \<dots> = join_lines (map (chart_block truthy self s) (chart_tbl s))"
    by (rule butlast_concat_lines)
  finally have "compile_charts self s = Inr (payload truthy self s)"
    by (simp add: payload_def)
  then show "compile_charts self s = Inr (payload truthy self s)
       \<and> (chart_tbl s \<noteq> [] \<longrightarrow> last (payload truthy self s) = CHR ''}'')"
    by (simp add: payload_last)
qed

theorem compile_charts_payload_witness:
  "compile_charts ex10_task ex10_store =
     Inr (join_lines
       [''{{AFC statistics/header|Pending}}'',
        ''{{AFC statistics/row|s=pend|t=A|h=A|z=10|cr=u|cd=1|ci=1|mr=u|md=2|mi=10|}}'',
        ''{{AFC statistics/row|s=pend|t=B|h=B|z=10|cr=u|cd=1|ci=1|mr=u|md=2|mi=20|n=1x}}'',
        ''{{AFC statistics/footer}}''])"
proof -
  have ok: "\<forall>p \<in> set (page_tbl ex10_store).
              truthy (page_special_user p) \<longrightarrow> page_special_time p \<noteq> None"
    by (simp add: ex10_store_def mk_row_def)
  with compile_charts_payload[of ex10_store ex10_task]
  have "compile_charts ex10_task ex10_store = Inr (payload truthy ex10_task ex10_store)"
    by blast
  moreover have "payload truthy ex10_task ex10_store =
     join_lines
       [''{{AFC statistics/header|Pending}}'',
        ''{{AFC statistics/row|s=pend|t=A|h=A|z=10|cr=u|cd=1|ci=1|mr=u|md=2|mi=10|}}'',
        ''{{AFC statistics/row|s=pend|t=B|h=B|z=10|cr=u|cd=1|ci=1|mr=u|md=2|mi=20|n=1x}}'',
        ''{{AFC statistics/footer}}'']"
    by code_simp
  ultimately show ?thesis by simp
qed

text \<open>With "present" read as "non-null", as the claim has it, the payload differs from
  what the code returns for a chart whose special title is the empty string.\<close>

theorem compile_charts_nonnull_counterexample:
  "compile_charts ex10_task ex10_special \<noteq> Inr (payload (\<lambda>v. v \<noteq> None) ex10_task ex10_special)"
  by code_simp

subsection \<open>The update path\<close>

lemma untrack_page_Inr: "untrack_page s pageid title = Inr s' \<Longrightarrow> s' = s"
  by (auto simp: untrack_page_def execute_untrack_query_def split: if_splits)

lemma page_join_row_mem:
  "(p, r) \<in> set (page_join_row s) \<longleftrightarrow>
     p \<in> set (page_tbl s) \<and> r \<in> set (row_tbl s) \<and> page_id p = row_id r"
  by (auto simp: page_join_row_def)

text \<open>A statement that rewrites the rows of both tables without touching their keys
  rewrites the joined rows in the same way.\<close>

lemma page_join_row_map:
  assumes "page_tbl s' = map f (page_tbl s)" and "row_tbl s' = map g (row_tbl s)"
    and "\<And>p. page_id (f p) = page_id p" and "\<And>r. row_id (g r) = row_id r"
  shows "page_join_row s' = map (\<lambda>(p, r). (f p, g r)) (page_join_row s)"
  by (simp add: page_join_row_def assms map_concat filter_map comp_def)

lemma select_joined_map:
  assumes "page_tbl s' = map f (page_tbl s)" and "row_tbl s' = map g (row_tbl s)"
    and "\<And>p. page_id (f p) = page_id p" and "\<And>r. row_id (g r) = row_id r"
  shows "select_joined s' pid = map (\<lambda>(p, r). (f p, g r)) (select_joined s pid)"
proof -
  have "(\<lambda>(p, r). page_id p = pid) \<circ> (\<lambda>(p, r). (f p, g r)) = (\<lambda>(p, r). page_id p = pid)"
    by (auto simp: assms)
  then show ?thesis
    by (simp add: select_joined_def page_join_row_map[OF assms] filter_map)
qed

lemma select_joined_mem:
  "(p, r) \<in> set (select_joined s pid) \<Longrightarrow>
     p \<in> set (page_tbl s) \<and> r \<in> set (row_tbl s) \<and> page_id p = pid \<and> row_id r = pid"
  by (auto simp: select_joined_def page_join_row_mem)

lemma select_joined_update_title:
  "select_joined (update_title t sh pid s) pid
   = map (\<lambda>(p, r). (p\<lparr>page_title := t, page_short := sh\<rparr>, r)) (select_joined s pid)"
proof -
  let ?f = "\<lambda>p. if page_id p = pid then p\<lparr>page_title := t, page_short := sh\<rparr> else p"
  have "select_joined (update_title t sh pid s) pid
        = map (\<lambda>(p, r). (?f p, r)) (select_joined s pid)"
    by (rule select_joined_map) (simp_all add: update_title_def)
  also have "\<dots> = map (\<lambda>(p, r). (p\<lparr>page_title := t, page_short := sh\<rparr>, r)) (select_joined s pid)"
    by (rule map_cong) (auto dest: select_joined_mem)
  finally show ?thesis .
qed

lemma select_joined_update_modify:
  "select_joined (update_modify sz mu mt mi pid s) pid
   = map (\<lambda>(p, r). (p\<lparr>page_size := sz, page_modify_user := mu, page_modify_time := mt,
                        page_modify_oldid := mi\<rparr>, r)) (select_joined s pid)"
proof -
  let ?f = "\<lambda>p. if page_id p = pid
                then p\<lparr>page_size := sz, page_modify_user := mu, page_modify_time := mt,
                       page_modify_oldid := mi\<rparr> else p"
  have "select_joined (update_modify sz mu mt mi pid s) pid
        = map (\<lambda>(p, r). (?f p, r)) (select_joined s pid)"
    by (rule select_joined_map) (simp_all add: update_modify_def)
  also have "\<dots> = map (\<lambda>(p, r). (p\<lparr>page_size := sz, page_modify_user := mu, page_modify_time := mt,
                        page_modify_oldid := mi\<rparr>, r)) (select_joined s pid)"
    by (rule map_cong) (auto dest: select_joined_mem)
  finally show ?thesis .
qed

lemma select_joined_update_special:
  "select_joined (update_special su st si pid s) pid
   = map (\<lambda>(p, r). (p\<lparr>page_special_user := su, page_special_time := st,
                        page_special_oldid := si\<rparr>, r)) (select_joined s pid)"
proof -
  let ?f = "\<lambda>p. if page_id p = pid
                then p\<lparr>page_special_user := su, page_special_time := st,
                       page_special_oldid := si\<rparr> else p"
  have "select_joined (update_special su st si pid s) pid
        = map (\<lambda>(p, r). (?f p, r)) (select_joined s pid)"
    by (rule select_joined_map) (simp_all add: update_special_def)
  also have "\<dots> = map (\<lambda>(p, r). (p\<lparr>page_special_user := su, page_special_time := st,
                        page_special_oldid := si\<rparr>, r)) (select_joined s pid)"
    by (rule map_cong) (auto dest: select_joined_mem)
  finally show ?thesis .
qed

lemma select_joined_update_notes:
  "select_joined (update_notes n pid s) pid
   = map (\<lambda>(p, r). (p\<lparr>page_notes := n\<rparr>, r)) (select_joined s pid)"
proof -
  let ?f = "\<lambda>p. if page_id p = pid then p\<lparr>page_notes := n\<rparr> else p"
  have "select_joined (update_notes n pid s) pid
        = map (\<lambda>(p, r). (?f p, r)) (select_joined s pid)"
    by (rule select_joined_map) (simp_all add: update_notes_def)
  also have "\<dots> = map (\<lambda>(p, r). (p\<lparr>page_notes := n\<rparr>, r)) (select_joined s pid)"
    by (rule map_cong) (auto dest: select_joined_mem)
  finally show ?thesis .
qed

lemma select_joined_update_status:
  "select_joined (update_status st ch pid s) pid
   = map (\<lambda>(p, r). (p\<lparr>page_status := st\<rparr>, r\<lparr>row_chart := ch\<rparr>)) (select_joined s pid)"
proof -
  let ?f = "\<lambda>p. if page_id p = pid \<and> page_id p \<in> set (map row_id (row_tbl s))
                then p\<lparr>page_status := st\<rparr> else p"
  let ?g = "\<lambda>r. if row_id r = pid \<and> row_id r \<in> set (map page_id (page_tbl s))
                then r\<lparr>row_chart := ch\<rparr> else r"
  have "select_joined (update_status st ch pid s) pid
        = map (\<lambda>(p, r). (?f p, ?g r)) (select_joined s pid)"
    by (rule select_joined_map) (simp_all add: update_status_def)
  also have "\<dots> = map (\<lambda>(p, r). (p\<lparr>page_status := st\<rparr>, r\<lparr>row_chart := ch\<rparr>)) (select_joined s pid)"
  proof (rule map_cong)
    fix x assume "x \<in> set (select_joined s pid)"
    moreover obtain p r where x: "x = (p, r)" by (cases x)
    ultimately have "(p, r) \<in> set (select_joined s pid)" by simp
    from select_joined_mem[OF this]
    have m: "p \<in> set (page_tbl s)" "r \<in> set (row_tbl s)" "page_id p = pid" "row_id r = pid"
      by simp_all
    from m have "page_id p \<in> set (map row_id (row_tbl s))" "row_id r \<in> set (map page_id (page_tbl s))"
      by force+
    with m x show "(case x of (p, r) \<Rightarrow> (?f p, ?g r))
          = (case x of (p, r) \<Rightarrow> (p\<lparr>page_status := st\<rparr>, r\<lparr>row_chart := ch\<rparr>))"
      by simp
  qed simp
  finally show ?thesis .
qed


text \<open>Each comparison step, read off the first joined row of the page.\<close>

lemma diff_title_hd:
  assumes "select_joined s pid = (res, rr) # rest" and "diff_title t pid result s = (s', w)"
  shows "\<exists>res' rest'. select_joined s' pid = (res', rr) # rest' \<and>
           page_title res' = (if t \<noteq> page_title result then t else page_title res) \<and>
           page_modify_oldid res' = page_modify_oldid res \<and>
           page_status res' = page_status res \<and> page_notes res' = page_notes res \<and>
           (Title_short \<in> set w \<longleftrightarrow> t \<noteq> page_title result) \<and> set w \<subseteq> {Title_short}"
  using assms by (auto simp: diff_title_def select_joined_update_title split: if_splits)

lemma diff_modify_hd:
  assumes "select_joined s pid = (res, rr) # rest"
    and "diff_modify sz mu mt mi pid result s = (s', w)"
  shows "\<exists>res' rest'. select_joined s' pid = (res', rr) # rest' \<and>
           page_title res' = page_title res \<and>
           page_modify_oldid res' = (if mi \<noteq> page_modify_oldid result then mi
                                     else page_modify_oldid res) \<and>
           page_status res' = page_status res \<and> page_notes res' = page_notes res \<and>
           (Size_modify \<in> set w \<longleftrightarrow> mi \<noteq> page_modify_oldid result) \<and> set w \<subseteq> {Size_modify}"
  using assms by (auto simp: diff_modify_def select_joined_update_modify split: if_splits)

lemma diff_status_hd:
  assumes "select_joined s pid = (res, rr) # rest"
    and "diff_status page st ch pid result s = (s', w)"
  shows "\<exists>res' rr' rest'. select_joined s' pid = (res', rr') # rest' \<and>
           page_title res' = page_title res \<and>
           page_modify_oldid res' = page_modify_oldid res \<and>
           page_status res' = (if st \<noteq> page_status result then st else page_status res) \<and>
           page_notes res' = page_notes res \<and>
           (Status_chart \<in> set w \<longleftrightarrow> st \<noteq> page_status result) \<and>
           (Special_triple \<in> set w \<longleftrightarrow>
              st \<noteq> page_status result \<and> page_special_oldid result \<noteq> None) \<and>
           set w \<subseteq> {Status_chart, Special_triple}"
  using assms
  by (cases "page_special_oldid result")
     (auto simp: diff_status_def get_special_def Let_def select_joined_update_status
        select_joined_update_special split: if_splits)

lemma diff_notes_hd:
  assumes "select_joined s pid = (res, rr) # rest" and "diff_notes n pid result s = (s', w)"
  shows "\<exists>res' rest'. select_joined s' pid = (res', rr) # rest' \<and>
           page_title res' = page_title res \<and>
           page_modify_oldid res' = page_modify_oldid res \<and>
           page_status res' = page_status res \<and>
           page_notes res' = (if n \<noteq> page_notes result then n else page_notes res) \<and>
           (Notes \<in> set w \<longleftrightarrow> n \<noteq> page_notes result) \<and> set w \<subseteq> {Notes}"
  using assms by (auto simp: diff_notes_def select_joined_update_notes split: if_splits)

text \<open>What a successful \<open>update_page\<close> leaves behind.\<close>

lemma update_page_Inr:
  assumes "update_page self s title = Inr (s', w)"
  shows "\<exists>m_user m_time m_id res rr rest res' rr' rest'.
           (truthy (fst (get_status_and_chart (the_site self) (get_page (the_site self) title))) \<or> title = []) \<and>
           get_modify self (wp_pageid (get_page (the_site self) title)) = Inr (m_user, m_time, m_id) \<and>
           select_joined s (wp_pageid (get_page (the_site self) title)) = (res, rr) # rest \<and>
           select_joined s' (wp_pageid (get_page (the_site self) title)) = (res', rr') # rest' \<and>
           page_title res' = wp_title (get_page (the_site self) title) \<and> page_modify_oldid res' = m_id \<and>
           page_status res' = fst (get_status_and_chart (the_site self) (get_page (the_site self) title)) \<and>
           page_notes res' = None \<and>
           (Title_short \<in> set w \<longleftrightarrow> wp_title (get_page (the_site self) title) \<noteq> page_title res) \<and>
           (Size_modify \<in> set w \<longleftrightarrow> m_id \<noteq> page_modify_oldid res) \<and>
           (Status_chart \<in> set w \<longleftrightarrow>
              fst (get_status_and_chart (the_site self) (get_page (the_site self) title)) \<noteq> page_status res) \<and>
           (Special_triple \<in> set w \<longleftrightarrow>
              fst (get_status_and_chart (the_site self) (get_page (the_site self) title)) \<noteq> page_status res \<and>
              page_special_oldid res \<noteq> None) \<and>
           (Notes \<in> set w \<longleftrightarrow> page_notes res \<noteq> None)"
proof -
  let ?page = "get_page (the_site self) title"
  obtain status chart where sc: "get_status_and_chart (the_site self) ?page = (status, chart)"
    by (cases "get_status_and_chart (the_site self) ?page") auto
  let ?pid = "wp_pageid ?page"
  from assms(1) sc obtain s0 where
    u: "(if \<not> truthy status then untrack_page s None (Some (PStr title)) else Inr s) = Inr s0"
    by (auto simp: update_page_def Let_def split: sum.splits)
  then have s0: "s0 = s" and tr: "truthy status \<or> title = []"
    by (auto simp: untrack_page_def execute_untrack_query_def split: if_splits)
  from assms(1) sc u obtain m_user m_time m_id where
    gm: "get_modify self ?pid = Inr (m_user, m_time, m_id)"
    by (auto simp: update_page_def Let_def split: sum.splits)
  from assms(1) sc u gm obtain res rr rest where
    sj: "select_joined s ?pid = (res, rr) # rest"
    by (auto simp: update_page_def Let_def s0 split: sum.splits list.splits)
  obtain s1 w1 where d1: "diff_title (wp_title ?page) ?pid res s = (s1, w1)"
    by (cases "diff_title (wp_title ?page) ?pid res s") auto
  obtain s2 w2 where d2:
    "diff_modify (int (length (wp_get ?page))) m_user m_time m_id ?pid res s1 = (s2, w2)"
    by (cases "diff_modify (int (length (wp_get ?page))) m_user m_time m_id ?pid res s1") auto
  obtain s3 w3 where d3: "diff_status ?page status chart ?pid res s2 = (s3, w3)"
    by (cases "diff_status ?page status chart ?pid res s2") auto
  obtain s4 w4 where d4: "diff_notes (get_notes ?page) ?pid res s3 = (s4, w4)"
    by (cases "diff_notes (get_notes ?page) ?pid res s3") auto
  from assms(1) sc u gm sj d1 d2 d3 d4 have res: "s' = s4" "w = w1 @ w2 @ w3 @ w4"
    by (auto simp: update_page_def Let_def s0)
  from diff_title_hd[OF sj d1] obtain res1 rest1 where
    r1: "select_joined s1 ?pid = (res1, rr) # rest1"
        "page_title res1 = (if wp_title ?page \<noteq> page_title res then wp_title ?page
                            else page_title res)"
        "page_modify_oldid res1 = page_modify_oldid res"
        "page_status res1 = page_status res" "page_notes res1 = page_notes res"
        "Title_short \<in> set w1 \<longleftrightarrow> wp_title ?page \<noteq> page_title res" "set w1 \<subseteq> {Title_short}"
    by blast
  from r1(2) have t1: "page_title res1 = wp_title ?page" by (simp split: if_splits)
  from diff_modify_hd[OF r1(1) d2] obtain res2 rest2 where
    r2: "select_joined s2 ?pid = (res2, rr) # rest2"
        "page_title res2 = page_title res1"
        "page_modify_oldid res2 = (if m_id \<noteq> page_modify_oldid res then m_id
                                   else page_modify_oldid res1)"
        "page_status res2 = page_status res1" "page_notes res2 = page_notes res1"
        "Size_modify \<in> set w2 \<longleftrightarrow> m_id \<noteq> page_modify_oldid res" "set w2 \<subseteq> {Size_modify}"
    by blast
  from r2(3) r1(3) have o2: "page_modify_oldid res2 = m_id" by (simp split: if_splits)
  from diff_status_hd[OF r2(1) d3] obtain res3 rr3 rest3 where
    r3: "select_joined s3 ?pid = (res3, rr3) # rest3"
        "page_title res3 = page_title res2"
        "page_modify_oldid res3 = page_modify_oldid res2"
        "page_status res3 = (if status \<noteq> page_status res then status else page_status res2)"
        "page_notes res3 = page_notes res2"
        "Status_chart \<in> set w3 \<longleftrightarrow> status \<noteq> page_status res"
        "Special_triple \<in> set w3 \<longleftrightarrow> status \<noteq> page_status res \<and> page_special_oldid res \<noteq> None"
        "set w3 \<subseteq> {Status_chart, Special_triple}"
    by blast
  from r3(4) r2(4) r1(4) have st3: "page_status res3 = status" by (simp split: if_splits)
  from diff_notes_hd[OF r3(1) d4] obtain res4 rest4 where
    r4: "select_joined s4 ?pid = (res4, rr3) # rest4"
        "page_title res4 = page_title res3"
        "page_modify_oldid res4 = page_modify_oldid res3"
        "page_status res4 = page_status res3"
        "page_notes res4 = (if get_notes ?page \<noteq> page_notes res then get_notes ?page
                            else page_notes res3)"
        "Notes \<in> set w4 \<longleftrightarrow> get_notes ?page \<noteq> page_notes res" "set w4 \<subseteq> {Notes}"
    by blast
  from r4(5) r3(5) r2(5) r1(5) have n4: "page_notes res4 = None"
    by (simp add: get_notes_def split: if_splits)
  have h4: "select_joined s4 ?pid = (res4, rr3) # rest4"
        "page_title res4 = wp_title ?page"
        "page_modify_oldid res4 = m_id"
        "page_status res4 = status" "page_notes res4 = None"
    using r4(1-4) r3(2,3) r2(2) t1 o2 st3 n4 by simp_all
  have nw: "Notes \<in> set w4 \<longleftrightarrow> page_notes res \<noteq> None"
    using r4(6) by (cases "page_notes res") (auto simp: get_notes_def)
  have w: "Title_short \<in> set w \<longleftrightarrow> wp_title ?page \<noteq> page_title res"
          "Size_modify \<in> set w \<longleftrightarrow> m_id \<noteq> page_modify_oldid res"
          "Status_chart \<in> set w \<longleftrightarrow> status \<noteq> page_status res"
          "Special_triple \<in> set w \<longleftrightarrow> status \<noteq> page_status res \<and> page_special_oldid res \<noteq> None"
          "Notes \<in> set w \<longleftrightarrow> page_notes res \<noteq> None"
    using r1(6,7) r2(6,7) r3(6,7,8) nw r4(7) unfolding res(2) by auto
  from tr gm sj h4(1-5) w sc res(1) show ?thesis
    by (intro exI[of _ m_user] exI[of _ m_time] exI[of _ m_id] exI[of _ res] exI[of _ rr]
          exI[of _ rest] exI[of _ res4] exI[of _ rr3] exI[of _ rest4]) simp
qed

text \<open>On a store whose row already agrees with what is computed, nothing is written.\<close>

lemma update_page_no_write:
  assumes "truthy (fst (get_status_and_chart (the_site self) (get_page (the_site self) title)))
           \<or> title = []"
    and "get_modify self (wp_pageid (get_page (the_site self) title)) = Inr (m_user, m_time, m_id)"
    and "select_joined s (wp_pageid (get_page (the_site self) title)) = (res, rr) # rest"
    and "page_title res = wp_title (get_page (the_site self) title)"
    and "page_modify_oldid res = m_id"
    and "page_status res = fst (get_status_and_chart (the_site self) (get_page (the_site self) title))"
    and "page_notes res = None"
  shows "update_page self s title = Inr (s, [])"
proof -
  let ?page = "get_page (the_site self) title"
  obtain status chart where sc: "get_status_and_chart (the_site self) ?page = (status, chart)"
    by (cases "get_status_and_chart (the_site self) ?page") auto
  from assms(1) sc
  have u: "(if \<not> truthy status then untrack_page s None (Some (PStr title)) else Inr s) = Inr s"
    by (auto simp: untrack_page_def)
  from assms sc show ?thesis
    unfolding update_page_def Let_def sc prod.case u
    by (simp add: diff_title_def diff_modify_def diff_status_def diff_notes_def get_notes_def)
qed

text \<open>
  Claim C7. If \<open>update_page\<close> returns on a store, a second \<open>update_page\<close> for the same
  title, with the wiki and the replica unchanged, returns the same store and writes no
  field group. And in the first call each group is written only when what was computed
  differs from the stored row: title and short title when the title differs, size and
  the modify triple when the latest revision id differs, status and chart when the
  status differs, the special triple when moreover the stored special revision id is
  not the null that \<open>get_special\<close> supplies, and the notes when the stored notes are
  not the null that \<open>get_notes\<close> supplies.
\<close>

theorem update_page_idempotent:
  "update_page self s title = Inr (s1, w1) \<longrightarrow>
     update_page self s1 title = Inr (s1, []) \<and>
     (\<exists>m_user m_time m_id res rr rest.
        get_modify self (wp_pageid (get_page (the_site self) title)) = Inr (m_user, m_time, m_id) \<and>
        select_joined s (wp_pageid (get_page (the_site self) title)) = (res, rr) # rest \<and>
        (Title_short \<in> set w1 \<longleftrightarrow> wp_title (get_page (the_site self) title) \<noteq> page_title res) \<and>
        (Size_modify \<in> set w1 \<longleftrightarrow> m_id \<noteq> page_modify_oldid res) \<and>
        (Status_chart \<in> set w1 \<longleftrightarrow>
           fst (get_status_and_chart (the_site self) (get_page (the_site self) title))
             \<noteq> page_status res) \<and>
        (Special_triple \<in> set w1 \<longleftrightarrow>
           fst (get_status_and_chart (the_site self) (get_page (the_site self) title))
             \<noteq> page_status res \<and> page_special_oldid res \<noteq> None) \<and>
        (Notes \<in> set w1 \<longleftrightarrow> page_notes res \<noteq> None))"
proof
  assume a: "update_page self s title = Inr (s1, w1)"
  let ?page = "get_page (the_site self) title"
  let ?status = "fst (get_status_and_chart (the_site self) ?page)"
  from update_page_Inr[OF a] obtain m_user m_time m_id res rr rest res' rr' rest' where
    f: "truthy ?status \<or> title = []"
       "get_modify self (wp_pageid ?page) = Inr (m_user, m_time, m_id)"
       "select_joined s1 (wp_pageid ?page) = (res', rr') # rest'"
       "page_title res' = wp_title ?page"
       "page_modify_oldid res' = m_id"
       "page_status res' = ?status"
       "page_notes res' = None"
    and g: "select_joined s (wp_pageid ?page) = (res, rr) # rest"
       "Title_short \<in> set w1 \<longleftrightarrow> wp_title ?page \<noteq> page_title res"
       "Size_modify \<in> set w1 \<longleftrightarrow> m_id \<noteq> page_modify_oldid res"
       "Status_chart \<in> set w1 \<longleftrightarrow> ?status \<noteq> page_status res"
       "Special_triple \<in> set w1 \<longleftrightarrow> ?status \<noteq> page_status res \<and> page_special_oldid res \<noteq> None"
       "Notes \<in> set w1 \<longleftrightarrow> page_notes res \<noteq> None"
    by blast
  from f have again: "update_page self s1 title = Inr (s1, [])"
    by (rule update_page_no_write)
  from f(2) g have "\<exists>m_user m_time m_id res rr rest.
        get_modify self (wp_pageid ?page) = Inr (m_user, m_time, m_id) \<and>
        select_joined s (wp_pageid ?page) = (res, rr) # rest \<and>
        (Title_short \<in> set w1 \<longleftrightarrow> wp_title ?page \<noteq> page_title res) \<and>
        (Size_modify \<in> set w1 \<longleftrightarrow> m_id \<noteq> page_modify_oldid res) \<and>
        (Status_chart \<in> set w1 \<longleftrightarrow> ?status \<noteq> page_status res) \<and>
        (Special_triple \<in> set w1 \<longleftrightarrow> ?status \<noteq> page_status res \<and> page_special_oldid res \<noteq> None) \<and>
        (Notes \<in> set w1 \<longleftrightarrow> page_notes res \<noteq> None)"
    by blast
  with again show "update_page self s1 title = Inr (s1, []) \<and>
     (\<exists>m_user m_time m_id res rr rest.
        get_modify self (wp_pageid ?page) = Inr (m_user, m_time, m_id) \<and>
        select_joined s (wp_pageid ?page) = (res, rr) # rest \<and>
        (Title_short \<in> set w1 \<longleftrightarrow> wp_title ?page \<noteq> page_title res) \<and>
        (Size_modify \<in> set w1 \<longleftrightarrow> m_id \<noteq> page_modify_oldid res) \<and>
        (Status_chart \<in> set w1 \<longleftrightarrow> ?status \<noteq> page_status res) \<and>
        (Special_triple \<in> set w1 \<longleftrightarrow> ?status \<noteq> page_status res \<and> page_special_oldid res \<noteq> None) \<and>
        (Notes \<in> set w1 \<longleftrightarrow> page_notes res \<noteq> None))"
    by blast
qed

theorem update_page_idempotent_witness:
  "update_page ex7_task ex7_store ''P'' = Inr (ex7_after, [Title_short, Size_modify])
   \<and> update_page ex7_task ex7_after ''P'' = Inr (ex7_after, [])"
proof -
  have first: "update_page ex7_task ex7_store ''P'' = Inr (ex7_after, [Title_short, Size_modify])"
    by code_simp
  with update_page_idempotent[of ex7_task ex7_store "''P''" ex7_after "[Title_short, Size_modify]"]
  have "update_page ex7_task ex7_after ''P'' = Inr (ex7_after, [])"
    by blast
  with first show ?thesis by blast
qed

subsection \<open>The special columns\<close>

text \<open>The biconditional of claim C9 does not survive a status transition into a terminal
  bucket: \<open>get_special\<close> supplies nulls, so the declined record has bucket 5 and null
  special columns.\<close>

theorem special_iff_counterexample:
  "special_iff_terminal ex3_store
   \<and> update_page ex9_task ex3_store ''P'' = Inr (ex9_after, [Status_chart])
   \<and> run ex9_task 0 (Edit ''P'') ex3_store = Inr ex9_after
   \<and> \<not> special_iff_terminal ex9_after"
  by code_simp


lemma keeps_special_refl: "keeps_special s s"
  unfolding keeps_special_def by (rule exI[of _ "\<lambda>p. p"]) simp

lemma keeps_special_inv:
  assumes "keeps_special s s'" and "engine_inv s"
  shows "engine_inv s'"
proof -
  from assms(1) obtain f where f: "page_tbl s' = map f (page_tbl s)" "row_tbl s' = row_tbl s"
      "\<And>p. page_id (f p) = page_id p" "\<And>p. page_special_user (f p) = page_special_user p"
      "\<And>p. page_special_time (f p) = page_special_time p"
      "\<And>p. page_special_oldid (f p) = page_special_oldid p"
    unfolding keeps_special_def by blast
  have "row_tbl s' = map (\<lambda>r. r) (row_tbl s)" by (simp add: f)
  with f have j: "page_join_row s' = map (\<lambda>(p, r). (f p, r)) (page_join_row s)"
    by (intro page_join_row_map) simp_all
  have d: "distinct (map page_id (page_tbl s'))"
    using assms(2) by (simp add: engine_inv_def f comp_def)
  have w: "\<forall>p \<in> set (page_tbl s'). page_special_oldid p = None \<longrightarrow>
           page_special_user p = None \<and> page_special_time p = None"
    using assms(2) by (auto simp: engine_inv_def f)
  have t: "\<forall>(p, r) \<in> set (page_join_row s'). special_populated p \<longrightarrow> row_chart r \<in> {4, 5}"
    using assms(2) unfolding j engine_inv_def by (auto simp: special_populated_def f)
  from d w t show ?thesis by (simp add: engine_inv_def)
qed

lemma keeps_special_oldid:
  assumes "keeps_special s s'"
    and "\<forall>p \<in> set (page_tbl s). page_id p = pid \<longrightarrow> page_special_oldid p = v"
  shows "\<forall>p \<in> set (page_tbl s'). page_id p = pid \<longrightarrow> page_special_oldid p = v"
  using assms unfolding keeps_special_def by auto

lemma diff_title_keeps: "keeps_special s (fst (diff_title t pid result s))"
  unfolding keeps_special_def diff_title_def update_title_def
  by (rule exI[of _ "\<lambda>p. if t \<noteq> page_title result \<and> page_id p = pid
                       then p\<lparr>page_title := t, page_short := get_short_title t\<rparr> else p"])
     (auto intro: map_idI[symmetric])

lemma diff_modify_keeps: "keeps_special s (fst (diff_modify sz mu mt mi pid result s))"
  unfolding keeps_special_def diff_modify_def update_modify_def
  by (rule exI[of _ "\<lambda>p. if mi \<noteq> page_modify_oldid result \<and> page_id p = pid
                       then p\<lparr>page_size := sz, page_modify_user := mu, page_modify_time := mt,
                              page_modify_oldid := mi\<rparr> else p"])
     (auto intro: map_idI[symmetric])

lemma diff_notes_keeps: "keeps_special s (fst (diff_notes n pid result s))"
  unfolding keeps_special_def diff_notes_def update_notes_def
  by (rule exI[of _ "\<lambda>p. if n \<noteq> page_notes result \<and> page_id p = pid
                       then p\<lparr>page_notes := n\<rparr> else p"])
     (auto intro: map_idI[symmetric])

lemma update_move_keeps: "keeps_special s (update_move dest new_oldid source s)"
  unfolding keeps_special_def update_move_def
  by (rule exI[of _ "\<lambda>p. if page_title p = source
                       then p\<lparr>page_title := dest, page_modify_oldid := new_oldid\<rparr> else p"])
     auto


lemma diff_status_inv:
  assumes inv: "engine_inv s"
    and same: "\<forall>p \<in> set (page_tbl s). page_id p = pid \<longrightarrow>
                  page_special_oldid p = page_special_oldid result"
  shows "engine_inv (fst (diff_status page st ch pid result s))"
proof (cases "st \<noteq> page_status result")
  case False
  with inv show ?thesis by (simp add: diff_status_def)
next
  case True
  define wr where "wr = (page_special_oldid result \<noteq> None)"
  define F where "F = (\<lambda>p::page_row. if page_id p = pid
       then (if page_id p \<in> set (map row_id (row_tbl s)) then p\<lparr>page_status := st\<rparr> else p)
              \<lparr>page_special_user := (if wr then None else page_special_user p),
               page_special_time := (if wr then None else page_special_time p),
               page_special_oldid := (if wr then None else page_special_oldid p)\<rparr>
       else p)"
  define G where "G = (\<lambda>r::chart_row. if row_id r = pid \<and> row_id r \<in> set (map page_id (page_tbl s))
       then r\<lparr>row_chart := ch\<rparr> else r)"
  let ?s' = "fst (diff_status page st ch pid result s)"
  have pt: "page_tbl ?s' = map F (page_tbl s)"
    using True
    by (cases "page_special_oldid result")
       (auto simp: diff_status_def get_special_def Let_def update_status_def update_special_def
          F_def wr_def)
  have rt: "row_tbl ?s' = map G (row_tbl s)"
    using True
    by (cases "page_special_oldid result")
       (auto simp: diff_status_def get_special_def Let_def update_status_def update_special_def
          G_def)
  have idF: "\<And>p. page_id (F p) = page_id p" by (simp add: F_def)
  have idG: "\<And>r. row_id (G r) = row_id r" by (simp add: G_def)
  have j: "page_join_row ?s' = map (\<lambda>(p, r). (F p, G r)) (page_join_row s)"
    using pt rt idF idG by (rule page_join_row_map)
  from inv have d0: "distinct (map page_id (page_tbl s))"
    and w0: "\<And>p. p \<in> set (page_tbl s) \<Longrightarrow> page_special_oldid p = None \<Longrightarrow>
              page_special_user p = None \<and> page_special_time p = None"
    and t0: "\<And>p r. (p, r) \<in> set (page_join_row s) \<Longrightarrow> special_populated p \<Longrightarrow>
              row_chart r \<in> {4, 5}"
    by (auto simp: engine_inv_def)
  have clean: "\<not> special_populated (F p)" if "p \<in> set (page_tbl s)" "page_id p = pid" for p
  proof (cases wr)
    case True
    with that show ?thesis by (simp add: F_def special_populated_def)
  next
    case False
    with that same have "page_special_oldid p = None" by (simp add: wr_def)
    with w0[OF that(1)] that False show ?thesis by (simp add: F_def special_populated_def)
  qed
  have d: "distinct (map page_id (page_tbl ?s'))"
    using d0 by (simp add: pt comp_def idF)
  have w: "\<forall>p \<in> set (page_tbl ?s'). page_special_oldid p = None \<longrightarrow>
           page_special_user p = None \<and> page_special_time p = None"
  proof
    fix p' assume "p' \<in> set (page_tbl ?s')"
    then obtain p where p: "p \<in> set (page_tbl s)" "p' = F p" by (auto simp: pt)
    show "page_special_oldid p' = None \<longrightarrow> page_special_user p' = None \<and> page_special_time p' = None"
    proof (cases "page_id p = pid")
      case True
      from clean[OF p(1) True] p(2) show ?thesis by (simp add: special_populated_def)
    next
      case False
      with p have "p' = p" by (simp add: F_def)
      with w0[OF p(1)] show ?thesis by simp
    qed
  qed
  have t': "row_chart r' \<in> {4, 5}"
    if m: "(p', r') \<in> set (page_join_row ?s')" and sp: "special_populated p'" for p' r'
  proof -
    from m obtain p r where pr: "(p, r) \<in> set (page_join_row s)" "p' = F p" "r' = G r"
      unfolding j by auto
    from pr(1) have mem: "p \<in> set (page_tbl s)" "page_id p = row_id r"
      by (simp_all add: page_join_row_mem)
    show ?thesis
    proof (cases "page_id p = pid")
      case True
      from clean[OF mem(1) True] sp pr(2) show ?thesis by simp
    next
      case False
      with mem pr have "p' = p" "r' = r" by (simp_all add: F_def G_def)
      with t0[OF pr(1)] sp show ?thesis by simp
    qed
  qed
  have t: "\<forall>(p, r) \<in> set (page_join_row ?s'). special_populated p \<longrightarrow> row_chart r \<in> {4, 5}"
    using t' by blast
  from d w t show ?thesis by (simp add: engine_inv_def)
qed

lemma update_page_inv:
  assumes up: "update_page self s title = Inr (s', w)" and inv: "engine_inv s"
  shows "engine_inv s'"
proof -
  let ?page = "get_page (the_site self) title"
  let ?pid = "wp_pageid ?page"
  obtain status chart where sc: "get_status_and_chart (the_site self) ?page = (status, chart)"
    by (cases "get_status_and_chart (the_site self) ?page") auto
  from up sc obtain s0 where
    u: "(if \<not> truthy status then untrack_page s None (Some (PStr title)) else Inr s) = Inr s0"
    by (auto simp: update_page_def Let_def split: sum.splits)
  then have s0: "s0 = s"
    by (auto dest: untrack_page_Inr split: if_splits)
  from up sc u obtain m_user m_time m_id where
    gm: "get_modify self ?pid = Inr (m_user, m_time, m_id)"
    by (auto simp: update_page_def Let_def split: sum.splits)
  from up sc u gm obtain res rr rest where
    sj: "select_joined s ?pid = (res, rr) # rest"
    by (auto simp: update_page_def Let_def s0 split: sum.splits list.splits)
  define s1 where "s1 = fst (diff_title (wp_title ?page) ?pid res s)"
  define s2 where "s2 = fst (diff_modify (int (length (wp_get ?page))) m_user m_time m_id ?pid res s1)"
  define s3 where "s3 = fst (diff_status ?page status chart ?pid res s2)"
  define s4 where "s4 = fst (diff_notes (get_notes ?page) ?pid res s3)"
  from up sc u gm sj have res: "s' = s4"
    by (auto simp: update_page_def Let_def s0 s1_def s2_def s3_def s4_def split: prod.splits)
  from sj have "(res, rr) \<in> set (select_joined s ?pid)" by simp
  from select_joined_mem[OF this] have rm: "res \<in> set (page_tbl s)" "page_id res = ?pid"
    by simp_all
  from inv have d0: "distinct (map page_id (page_tbl s))" by (simp add: engine_inv_def)
  have same0: "\<forall>p \<in> set (page_tbl s). page_id p = ?pid \<longrightarrow>
                 page_special_oldid p = page_special_oldid res"
  proof (intro ballI impI)
    fix p assume "p \<in> set (page_tbl s)" "page_id p = ?pid"
    with rm d0 have "p = res" by (metis distinct_map inj_onD)
    then show "page_special_oldid p = page_special_oldid res" by simp
  qed
  have k1: "keeps_special s s1" unfolding s1_def by (rule diff_title_keeps)
  have k2: "keeps_special s1 s2" unfolding s2_def by (rule diff_modify_keeps)
  have i2: "engine_inv s2" using keeps_special_inv[OF k2 keeps_special_inv[OF k1 inv]] .
  have same2: "\<forall>p \<in> set (page_tbl s2). page_id p = ?pid \<longrightarrow>
                 page_special_oldid p = page_special_oldid res"
    using keeps_special_oldid[OF k2 keeps_special_oldid[OF k1 same0]] .
  have i3: "engine_inv s3" unfolding s3_def using i2 same2 by (rule diff_status_inv)
  have "keeps_special s3 s4" unfolding s4_def by (rule diff_notes_keeps)
  from keeps_special_inv[OF this i3] res show ?thesis by simp
qed

lemma track_page_Inr: "track_page self s title = Inr s' \<Longrightarrow> s' = s"
  using track_page_cases[of self s title] by auto

lemma sync_page_inv: "sync_page self s page = Inr s' \<Longrightarrow> engine_inv s \<Longrightarrow> engine_inv s'"
  by (auto simp: sync_page_def Let_def split: if_splits sum.splits
        dest: update_page_inv track_page_Inr)

lemma process_edit_inv: "process_edit self s page = Inr s' \<Longrightarrow> engine_inv s \<Longrightarrow> engine_inv s'"
  by (auto simp: process_edit_def split: if_splits dest: sync_page_inv)

lemma process_delete_inv: "process_delete self s page = Inr s' \<Longrightarrow> engine_inv s \<Longrightarrow> engine_inv s'"
  by (auto simp: process_delete_def split: list.splits if_splits
        dest: sync_page_inv untrack_page_Inr)

lemma process_move_inv: "process_move self s page = Inr s' \<Longrightarrow> engine_inv s \<Longrightarrow> engine_inv s'"
  by (auto simp: process_move_def Let_def split: prod.splits list.splits if_splits
        dest: track_page_Inr intro: keeps_special_inv[OF update_move_keeps])

lemma sync_deleted_loop_Inr: "sync_deleted_loop self pages s = Inr s' \<Longrightarrow> s' = s"
  by (cases pages) (simp_all add: bind_param_def)

lemma sync_pending_loop_Inr: "sync_pending_loop self tracked pages s = Inr s' \<Longrightarrow> s' = s"
  by (induction pages arbitrary: s) (auto split: if_splits sum.splits dest: track_page_Inr)

lemma sync_oldids_loop_inv:
  "sync_oldids_loop self remaining s = Inr s' \<Longrightarrow> engine_inv s \<Longrightarrow> engine_inv s'"
proof (induction remaining arbitrary: s)
  case Nil then show ?case by simp
next
  case (Cons x remaining)
  obtain pid title oldid where x: "x = (pid, title, oldid)" by (cases x) auto
  from Cons.prems show ?case
    unfolding x
    by (auto split: list.splits sum.splits if_splits simp: Let_def
          dest: untrack_page_Inr
          intro: Cons.IH update_page_inv Cons.IH[OF _ update_page_inv])
qed

lemma sync_old_inv: "engine_inv s \<Longrightarrow> engine_inv (sync_old now s)"
proof -
  assume inv: "engine_inv s"
  have sub: "set (page_join_row (sync_old now s)) \<subseteq> set (page_join_row s)"
    by (auto simp: page_join_row_mem sync_old_def)
  have "distinct (map page_id (page_tbl (sync_old now s)))"
    using inv by (simp add: engine_inv_def sync_old_def distinct_map_filter)
  moreover have "\<forall>p \<in> set (page_tbl (sync_old now s)). page_special_oldid p = None \<longrightarrow>
           page_special_user p = None \<and> page_special_time p = None"
    using inv by (simp add: engine_inv_def sync_old_def)
  moreover have "\<forall>(p, r) \<in> set (page_join_row (sync_old now s)).
           special_populated p \<longrightarrow> row_chart r \<in> {4, 5}"
    using inv sub unfolding engine_inv_def by blast
  ultimately show ?thesis by (simp add: engine_inv_def)
qed

lemma sync_inv: "sync self now s = Inr s' \<Longrightarrow> engine_inv s \<Longrightarrow> engine_inv s'"
  by (auto simp: sync_def sync_deleted_def sync_oldids_def sync_pending_def Let_def
        split: sum.splits
        dest!: sync_deleted_loop_Inr sync_pending_loop_Inr
        dest: sync_oldids_loop_inv intro: sync_old_inv)

lemma run_inv: "run self now a s = Inr s' \<Longrightarrow> engine_inv s \<Longrightarrow> engine_inv s'"
  by (cases a)
     (auto simp: run_def dest: sync_inv process_edit_inv process_move_inv process_delete_inv)

text \<open>
  Claim C9, amended. Of the biconditional the "only if" half is an invariant of the
  engine: from a store in which \<open>page_id\<close> is a key, a null special revision id comes
  with a null special user and time, and every record with a non-null special column
  is in bucket 4 or 5, every sequence of edit, restore, move, delete and sync events
  that returns leads to a store with the same three properties. (The "if" half fails,
  as the counterexample shows.)
\<close>

theorem special_only_if_terminal:
  "engine_inv s \<and> run_all self events s = Inr s' \<longrightarrow>
     engine_inv s' \<and>
     (\<forall>(p, r) \<in> set (page_join_row s').
        page_special_user p \<noteq> None \<or> page_special_time p \<noteq> None \<or> page_special_oldid p \<noteq> None
        \<longrightarrow> row_chart r = 4 \<or> row_chart r = 5)"
proof
  assume h: "engine_inv s \<and> run_all self events s = Inr s'"
  have "engine_inv s \<Longrightarrow> run_all self events s = Inr s' \<Longrightarrow> engine_inv s'"
  proof (induction events arbitrary: s)
    case Nil then show ?case by simp
  next
    case (Cons e events)
    obtain now a where e: "e = (now, a)" by (cases e) auto
    from Cons.prems(2) obtain s1 where s1: "run self now a s = Inr s1"
        "run_all self events s1 = Inr s'"
      unfolding e by (auto split: sum.splits)
    from run_inv[OF s1(1) Cons.prems(1)] s1(2) show ?case by (rule Cons.IH)
  qed
  with h have i: "engine_inv s'" by blast
  then have "\<forall>(p, r) \<in> set (page_join_row s').
        page_special_user p \<noteq> None \<or> page_special_time p \<noteq> None \<or> page_special_oldid p \<noteq> None
        \<longrightarrow> row_chart r = 4 \<or> row_chart r = 5"
    by (auto simp: engine_inv_def special_populated_def)
  with i show "engine_inv s' \<and>
     (\<forall>(p, r) \<in> set (page_join_row s').
        page_special_user p \<noteq> None \<or> page_special_time p \<noteq> None \<or> page_special_oldid p \<noteq> None
        \<longrightarrow> row_chart r = 4 \<or> row_chart r = 5)"
    by blast
qed

text \<open>The invariant at work: the edit of the resubmitted page \<open>P1\<close> moves its record from
  bucket 5 to bucket 1 and clears its three special columns, and the edit of \<open>P2\<close>
  leaves its record, with its special columns, in bucket 5.\<close>

theorem special_only_if_terminal_witness:
  "engine_inv ex9_resub_store
   \<and> special_all_set (ex9_declined 1 ''P1'' 10)
   \<and> ex9_declined 1 ''P1'' 10 \<in> set (page_tbl ex9_resub_store)
   \<and> run_all ex9_resub_task [(0, Edit ''P1''), (1, Edit ''P2'')] ex9_resub_store
       = Inr ex9_resub_after
   \<and> engine_inv ex9_resub_after
   \<and> page_join_row ex9_resub_after =
       [(mk_row 1 (Some ''pend'') ''P1'' 10 None, \<lparr>row_id = 1, row_chart = 1\<rparr>),
        (ex9_declined 2 ''P2'' 20, \<lparr>row_id = 2, row_chart = 5\<rparr>)]
   \<and> special_all_set (ex9_declined 2 ''P2'' 20)"
proof -
  have i: "engine_inv ex9_resub_store"
    by (simp add: engine_inv_def ex9_resub_store_def ex9_declined_def mk_row_def
          page_join_row_def special_populated_def)
  have a: "special_all_set (ex9_declined 1 ''P1'' 10)"
      "special_all_set (ex9_declined 2 ''P2'' 20)"
      "ex9_declined 1 ''P1'' 10 \<in> set (page_tbl ex9_resub_store)"
    by (simp_all add: special_all_set_def ex9_declined_def mk_row_def ex9_resub_store_def)
  have r: "run_all ex9_resub_task [(0, Edit ''P1''), (1, Edit ''P2'')] ex9_resub_store
             = Inr ex9_resub_after"
    by code_simp
  have j: "page_join_row ex9_resub_after =
       [(mk_row 1 (Some ''pend'') ''P1'' 10 None, \<lparr>row_id = 1, row_chart = 1\<rparr>),
        (ex9_declined 2 ''P2'' 20, \<lparr>row_id = 2, row_chart = 5\<rparr>)]"
    by (simp add: page_join_row_def ex9_resub_after_def ex9_declined_def mk_row_def)
  from special_only_if_terminal[of ex9_resub_store ex9_resub_task
         "[(0, Edit ''P1''), (1, Edit ''P2'')]" ex9_resub_after] i r
  have "engine_inv ex9_resub_after" by blast
  with i a r j show ?thesis by blast
qed

subsection \<open>The sweep\<close>

text \<open>Each statement of \<open>update_page\<close> rewrites records of one page id.\<close>

lemma touches_only_refl: "touches_only pid s s"
  unfolding touches_only_def by (rule exI[of _ "\<lambda>p. p"]) simp

lemma touches_only_trans:
  assumes "touches_only pid s s1" and "touches_only pid s1 s2"
  shows "touches_only pid s s2"
proof -
  from assms obtain f g where f: "page_tbl s1 = map f (page_tbl s)"
      "\<And>p. page_id (f p) = page_id p" "\<And>p. page_id p \<noteq> pid \<Longrightarrow> f p = p"
    and g: "page_tbl s2 = map g (page_tbl s1)"
      "\<And>p. page_id (g p) = page_id p" "\<And>p. page_id p \<noteq> pid \<Longrightarrow> g p = p"
    unfolding touches_only_def by blast
  show ?thesis
    unfolding touches_only_def
    by (rule exI[of _ "g \<circ> f"]) (simp add: f g)
qed

lemma diff_title_touches: "touches_only pid s (fst (diff_title t pid result s))"
  unfolding touches_only_def diff_title_def update_title_def
  by (rule exI[of _ "\<lambda>p. if t \<noteq> page_title result \<and> page_id p = pid
                       then p\<lparr>page_title := t, page_short := get_short_title t\<rparr> else p"])
     (auto intro: map_idI[symmetric])

lemma diff_modify_touches: "touches_only pid s (fst (diff_modify sz mu mt mi pid result s))"
  unfolding touches_only_def diff_modify_def update_modify_def
  by (rule exI[of _ "\<lambda>p. if mi \<noteq> page_modify_oldid result \<and> page_id p = pid
                       then p\<lparr>page_size := sz, page_modify_user := mu, page_modify_time := mt,
                              page_modify_oldid := mi\<rparr> else p"])
     (auto intro: map_idI[symmetric])

lemma diff_notes_touches: "touches_only pid s (fst (diff_notes n pid result s))"
  unfolding touches_only_def diff_notes_def update_notes_def
  by (rule exI[of _ "\<lambda>p. if n \<noteq> page_notes result \<and> page_id p = pid
                       then p\<lparr>page_notes := n\<rparr> else p"])
     (auto intro: map_idI[symmetric])

lemma update_status_touches: "touches_only pid s (update_status st ch pid s)"
  unfolding touches_only_def update_status_def
  by (rule exI[of _ "\<lambda>p. if page_id p = pid \<and> page_id p \<in> set (map row_id (row_tbl s))
                       then p\<lparr>page_status := st\<rparr> else p"])
     auto

lemma update_special_touches: "touches_only pid s (update_special su st si pid s)"
  unfolding touches_only_def update_special_def
  by (rule exI[of _ "\<lambda>p. if page_id p = pid
                       then p\<lparr>page_special_user := su, page_special_time := st,
                              page_special_oldid := si\<rparr> else p"])
     auto

lemma diff_status_touches: "touches_only pid s (fst (diff_status page st ch pid result s))"
  unfolding diff_status_def get_special_def Let_def
  by (auto intro: touches_only_refl update_status_touches
        touches_only_trans[OF update_status_touches update_special_touches])

lemma update_page_touches:
  assumes up: "update_page self s title = Inr (s', w)"
  shows "touches_only (wp_pageid (get_page (the_site self) title)) s s'"
proof -
  let ?page = "get_page (the_site self) title"
  let ?pid = "wp_pageid ?page"
  obtain status chart where sc: "get_status_and_chart (the_site self) ?page = (status, chart)"
    by (cases "get_status_and_chart (the_site self) ?page") auto
  from up sc obtain s0 where
    u: "(if \<not> truthy status then untrack_page s None (Some (PStr title)) else Inr s) = Inr s0"
    by (auto simp: update_page_def Let_def split: sum.splits)
  then have s0: "s0 = s"
    by (auto dest: untrack_page_Inr split: if_splits)
  from up sc u obtain m_user m_time m_id where
    gm: "get_modify self ?pid = Inr (m_user, m_time, m_id)"
    by (auto simp: update_page_def Let_def split: sum.splits)
  from up sc u gm obtain res rr rest where
    sj: "select_joined s ?pid = (res, rr) # rest"
    by (auto simp: update_page_def Let_def s0 split: sum.splits list.splits)
  define s1 where "s1 = fst (diff_title (wp_title ?page) ?pid res s)"
  define s2 where "s2 = fst (diff_modify (int (length (wp_get ?page))) m_user m_time m_id ?pid res s1)"
  define s3 where "s3 = fst (diff_status ?page status chart ?pid res s2)"
  define s4 where "s4 = fst (diff_notes (get_notes ?page) ?pid res s3)"
  from up sc u gm sj have res: "s' = s4"
    by (auto simp: update_page_def Let_def s0 s1_def s2_def s3_def s4_def split: prod.splits)
  have "touches_only ?pid s s1" unfolding s1_def by (rule diff_title_touches)
  moreover have "touches_only ?pid s1 s2" unfolding s2_def by (rule diff_modify_touches)
  moreover have "touches_only ?pid s2 s3" unfolding s3_def by (rule diff_status_touches)
  moreover have "touches_only ?pid s3 s4" unfolding s4_def by (rule diff_notes_touches)
  ultimately show ?thesis unfolding res by (blast intro: touches_only_trans)
qed

text \<open>An \<open>update_page\<close> that writes no field group leaves the store as it was.\<close>

lemma update_page_unwritten:
  assumes up: "update_page self s title = Inr (s', [])"
  shows "s' = s"
proof -
  let ?page = "get_page (the_site self) title"
  let ?pid = "wp_pageid ?page"
  obtain status chart where sc: "get_status_and_chart (the_site self) ?page = (status, chart)"
    by (cases "get_status_and_chart (the_site self) ?page") auto
  from up sc obtain s0 where
    u: "(if \<not> truthy status then untrack_page s None (Some (PStr title)) else Inr s) = Inr s0"
    by (auto simp: update_page_def Let_def split: sum.splits)
  then have s0: "s0 = s"
    by (auto dest: untrack_page_Inr split: if_splits)
  from up sc u obtain m_user m_time m_id where
    gm: "get_modify self ?pid = Inr (m_user, m_time, m_id)"
    by (auto simp: update_page_def Let_def split: sum.splits)
  from up sc u gm obtain res rr rest where
    sj: "select_joined s ?pid = (res, rr) # rest"
    by (auto simp: update_page_def Let_def s0 split: sum.splits list.splits)
  obtain s1 w1 where d1: "diff_title (wp_title ?page) ?pid res s = (s1, w1)"
    by (cases "diff_title (wp_title ?page) ?pid res s") auto
  obtain s2 w2 where
    d2: "diff_modify (int (length (wp_get ?page))) m_user m_time m_id ?pid res s1 = (s2, w2)"
    by (cases "diff_modify (int (length (wp_get ?page))) m_user m_time m_id ?pid res s1") auto
  obtain s3 w3 where d3: "diff_status ?page status chart ?pid res s2 = (s3, w3)"
    by (cases "diff_status ?page status chart ?pid res s2") auto
  obtain s4 w4 where d4: "diff_notes (get_notes ?page) ?pid res s3 = (s4, w4)"
    by (cases "diff_notes (get_notes ?page) ?pid res s3") auto
  from up sc u gm sj d1 d2 d3 d4 have res: "s' = s4" and w: "w1 @ w2 @ w3 @ w4 = []"
    by (auto simp: update_page_def Let_def s0)
  from w d1 have "s1 = s" by (auto simp: diff_title_def split: if_splits)
  moreover from w d2 have "s2 = s1" by (auto simp: diff_modify_def split: if_splits)
  moreover from w d3 have "s3 = s2"
    by (auto simp: diff_status_def get_special_def Let_def split: if_splits)
  moreover from w d4 have "s4 = s3" by (auto simp: diff_notes_def split: if_splits)
  ultimately show ?thesis by (simp add: res)
qed

text \<open>The purge-stale pass ends with the first record that it rewrites.\<close>

lemma sync_oldids_loop_touches:
  "sync_oldids_loop self remaining s = Inr s' \<Longrightarrow> \<exists>pid. touches_only pid s s'"
proof (induction remaining arbitrary: s)
  case Nil
  then show ?case by (auto intro: touches_only_refl)
next
  case (Cons x remaining)
  obtain pid title oldid where x: "x = (pid, title, oldid)" by (cases x) auto
  show ?case
  proof (cases "filter (\<lambda>p. rp_page_id p = pid) (replica_pages (the_site self))")
    case Nil
    with Cons.prems x have "sync_oldids_loop self remaining s = Inr s'"
      by (auto split: sum.splits dest: untrack_page_Inr)
    then show ?thesis by (rule Cons.IH)
  next
    case (Cons r rs)
    show ?thesis
    proof (cases "rp_page_latest r \<noteq> oldid")
      case False
      with Cons.prems x Cons have "sync_oldids_loop self remaining s = Inr s'"
        by (simp add: Let_def)
      then show ?thesis by (rule Cons.IH)
    next
      case True
      with Cons.prems x Cons obtain s1 w where
        up: "update_page self s title = Inr (s1, w)"
        and rest: "if w \<noteq> [] then s' = s1 else sync_oldids_loop self remaining s1 = Inr s'"
        by (auto simp: Let_def split: sum.splits if_splits)
      show ?thesis
      proof (cases "w = []")
        case True
        with up have "s1 = s" by (auto dest: update_page_unwritten)
        with rest True have "sync_oldids_loop self remaining s = Inr s'" by simp
        then show ?thesis by (rule Cons.IH)
      next
        case False
        with rest have "s' = s1" by simp
        with update_page_touches[OF up] show ?thesis by blast
      qed
    qed
  qed
qed

text \<open>
  Claim C1. The sweep does not restore the latest revision ids. Its first pass hands
  each row of its \<open>SELECT\<close>, a tuple, to the replica query as the page id, which the
  driver refuses: from every store with a record the sweep ends with \<open>TypeError\<close> before
  any record is compared, so it returns from a store without records only. And the
  purge-stale pass, whenever it returns, has rewritten the records of at most one page
  id: it iterates the cursor on which \<open>update_page\<close> executes its statements, so it ends
  with the first record that it refreshes and leaves every later record as it was, stale
  or not.
\<close>

theorem sweep_raises_on_records:
  "(page_tbl s \<noteq> [] \<longrightarrow> sync self now s = Inl TypeError)
   \<and> (sync_oldids self t = Inr t' \<longrightarrow> (\<exists>pid. touches_only pid t t'))"
proof (intro conjI impI)
  assume "page_tbl s \<noteq> []"
  then obtain p ps where "page_tbl s = p # ps" by (cases "page_tbl s") auto
  then show "sync self now s = Inl TypeError"
    by (simp add: sync_def sync_deleted_def bind_param_def)
next
  assume "sync_oldids self t = Inr t'"
  then show "\<exists>pid. touches_only pid t t'"
    unfolding sync_oldids_def by (rule sync_oldids_loop_touches)
qed

theorem sweep_raises_on_records_witness:
  "page_tbl ex1_store \<noteq> []
   \<and> \<not> fresh ex1_task (mk_row 1 (Some ''pend'') ''A'' 10 None)
   \<and> \<not> fresh ex1_task (mk_row 2 (Some ''pend'') ''B'' 20 None)
   \<and> sync ex1_task 0 ex1_store = Inl TypeError
   \<and> sync_oldids ex1_task ex1_store = Inr ex1_after
   \<and> (\<exists>pid. touches_only pid ex1_store ex1_after)
   \<and> mk_row 2 (Some ''pend'') ''B'' 20 None \<in> set (page_tbl ex1_after)
   \<and> \<not> latest_synced ex1_task ex1_after"
proof -
  have n: "page_tbl ex1_store \<noteq> []" by (simp add: ex1_store_def)
  have st: "\<not> fresh ex1_task (mk_row 1 (Some ''pend'') ''A'' 10 None)"
      "\<not> fresh ex1_task (mk_row 2 (Some ''pend'') ''B'' 20 None)"
    by code_simp+
  have o: "sync_oldids ex1_task ex1_store = Inr ex1_after" by code_simp
  have m: "mk_row 2 (Some ''pend'') ''B'' 20 None \<in> set (page_tbl ex1_after)"
    by (simp add: ex1_after_def)
  have l: "\<not> latest_synced ex1_task ex1_after" by code_simp
  note t = sweep_raises_on_records[of ex1_store ex1_task 0 ex1_store ex1_after]
  from t n have "sync ex1_task 0 ex1_store = Inl TypeError" by blast
  moreover from t o have "\<exists>pid. touches_only pid ex1_store ex1_after" by blast
  ultimately show ?thesis using n st o m l by blast
qed

end
